theory Spec2Isabelle
  imports Main "HOL-Library.Word"
begin

unbundle bit_operations_syntax

section \<open>YMODEM: a shallow embedding of the sender and the receiver\<close>

text \<open>
  The development follows the C sources: \<^verbatim>\<open>ymodem_common.c\<close> (CRC and the transport
  adapter), \<^verbatim>\<open>ymodem_send.c\<close> and \<^verbatim>\<open>ymodem_receive.c\<close>. C identifiers are kept;
  the static functions \<^verbatim>\<open>_ymodem_xxx\<close> lose their leading underscore, which an
  Isabelle name cannot start with.
\<close>

subsection \<open>Protocol constants (ymodem\_common.h)\<close>

type_synonym byte = "8 word"

text \<open>
  A file handle is the C \<^verbatim>\<open>void*\<close>: a \<open>handle option\<close>, with \<open>None\<close> the null
  pointer.
\<close>

type_synonym handle = nat

definition YMODEM_CODE_NONE :: byte where "YMODEM_CODE_NONE = 0x00"
definition YMODEM_CODE_SOH :: byte where "YMODEM_CODE_SOH = 0x01"
definition YMODEM_CODE_STX :: byte where "YMODEM_CODE_STX = 0x02"
definition YMODEM_CODE_EOT :: byte where "YMODEM_CODE_EOT = 0x04"
definition YMODEM_CODE_ACK :: byte where "YMODEM_CODE_ACK = 0x06"
definition YMODEM_CODE_NAK :: byte where "YMODEM_CODE_NAK = 0x15"
definition YMODEM_CODE_CAN :: byte where "YMODEM_CODE_CAN = 0x18"
definition YMODEM_CODE_C :: byte where "YMODEM_CODE_C = 0x43"

lemmas ymodem_code_defs =
  YMODEM_CODE_NONE_def YMODEM_CODE_SOH_def YMODEM_CODE_STX_def YMODEM_CODE_EOT_def
  YMODEM_CODE_ACK_def YMODEM_CODE_NAK_def YMODEM_CODE_CAN_def YMODEM_CODE_C_def

datatype ymodem_error =
    YMODEM_ERR_NONE
  | YMODEM_ERR_TMO
  | YMODEM_ERR_CODE
  | YMODEM_ERR_SEQ
  | YMODEM_ERR_CRC
  | YMODEM_ERR_DSZ
  | YMODEM_ERR_CAN
  | YMODEM_ERR_ACK
  | YMODEM_ERR_FILE
  | YMODEM_ERR_MEM

text \<open>The numeric value of an error, as the C enum fixes it.\<close>

fun ymodem_error_value :: "ymodem_error \<Rightarrow> int" where
  "ymodem_error_value YMODEM_ERR_NONE = 0"
| "ymodem_error_value YMODEM_ERR_TMO = -1"
| "ymodem_error_value YMODEM_ERR_CODE = -2"
| "ymodem_error_value YMODEM_ERR_SEQ = -3"
| "ymodem_error_value YMODEM_ERR_CRC = -4"
| "ymodem_error_value YMODEM_ERR_DSZ = -5"
| "ymodem_error_value YMODEM_ERR_CAN = -6"
| "ymodem_error_value YMODEM_ERR_ACK = -7"
| "ymodem_error_value YMODEM_ERR_FILE = -8"
| "ymodem_error_value YMODEM_ERR_MEM = -9"

datatype ymodem_stage =
    YMODEM_STAGE_NONE
  | YMODEM_STAGE_ESTABLISHING
  | YMODEM_STAGE_ESTABLISHED
  | YMODEM_STAGE_TRANSMITTING
  | YMODEM_STAGE_FINISHING
  | YMODEM_STAGE_FINISHED

definition YMODEM_WAIT_CHAR_TIMEOUT_MS :: nat where "YMODEM_WAIT_CHAR_TIMEOUT_MS = 3000"
definition YMODEM_WAIT_PACKET_TIMEOUT_MS :: nat where "YMODEM_WAIT_PACKET_TIMEOUT_MS = 3000"
definition YMODEM_HANDSHAKE_INTERVAL_MS :: nat where "YMODEM_HANDSHAKE_INTERVAL_MS = 1000"
definition YMODEM_MAX_ERRORS :: nat where "YMODEM_MAX_ERRORS = 5"
definition YMODEM_CAN_SEND_COUNT :: nat where "YMODEM_CAN_SEND_COUNT = 7"
definition YMODEM_SOH_DATA_SIZE :: nat where "YMODEM_SOH_DATA_SIZE = 128"
definition YMODEM_STX_DATA_SIZE :: nat where "YMODEM_STX_DATA_SIZE = 1024"
definition YMODEM_SOH_PACKET_SIZE :: nat where
  "YMODEM_SOH_PACKET_SIZE = 1 + 2 + YMODEM_SOH_DATA_SIZE + 2"
definition YMODEM_STX_PACKET_SIZE :: nat where
  "YMODEM_STX_PACKET_SIZE = 1 + 2 + YMODEM_STX_DATA_SIZE + 2"
definition YMODEM_MAX_PACKET_SIZE :: nat where
  "YMODEM_MAX_PACKET_SIZE = YMODEM_STX_PACKET_SIZE"
definition YMODEM_MAX_FILENAME_LENGTH :: nat where "YMODEM_MAX_FILENAME_LENGTH = 256"

lemmas ymodem_size_defs =
  YMODEM_SOH_DATA_SIZE_def YMODEM_STX_DATA_SIZE_def YMODEM_SOH_PACKET_SIZE_def
  YMODEM_STX_PACKET_SIZE_def YMODEM_MAX_PACKET_SIZE_def YMODEM_MAX_FILENAME_LENGTH_def

subsection \<open>The outside world: callbacks and their trace\<close>

text \<open>
  The C code reaches the transport and the file system only through the function pointers
  of \<^verbatim>\<open>ymodem_callbacks_t\<close>. A callback is a function of an environment \<open>'e\<close> that the
  model never inspects; a null function pointer is \<open>None\<close>. The callbacks have the
  signatures that \<^verbatim>\<open>ymodem_common.c\<close> and \<^verbatim>\<open>demo.c\<close> use them with:
  \<^verbatim>\<open>size_t comm_send(const uint8_t* data, size_t length)\<close> and
  \<^verbatim>\<open>size_t comm_receive(uint8_t* data, size_t max_length, uint32_t timeout_ms)\<close>.
  A callback that fills a caller's buffer returns the bytes it stored; their number is
  the count the C callback returns.
\<close>

record 'e ymodem_callbacks =
  file_open :: "(byte list \<Rightarrow> bool \<Rightarrow> 'e \<Rightarrow> handle option \<times> 'e) option"
  file_read :: "(handle option \<Rightarrow> nat \<Rightarrow> 'e \<Rightarrow> byte list \<times> 'e) option"
  file_write :: "(handle option \<Rightarrow> byte list \<Rightarrow> 'e \<Rightarrow> nat \<times> 'e) option"
  file_close :: "(handle option \<Rightarrow> 'e \<Rightarrow> 'e) option"
  file_size_fn :: "(handle option \<Rightarrow> 'e \<Rightarrow> int \<times> 'e) option"
  comm_send :: "(byte list \<Rightarrow> 'e \<Rightarrow> nat \<times> 'e) option"
  comm_receive :: "(nat \<Rightarrow> nat \<Rightarrow> 'e \<Rightarrow> byte list \<times> 'e) option"

text \<open>
  Every call of a callback is recorded, in order, with its arguments and its result. The
  trace is what an observer of the wire and of the file system sees; the code never
  reads it.
\<close>

datatype event =
    CommSend "byte list" nat
  | CommReceive nat nat "byte list"
  | FileOpen "byte list" bool "handle option"
  | FileSize "handle option" int
  | FileRead "handle option" nat "byte list"
  | FileWrite "handle option" "byte list" nat
  | FileClose "handle option"

record 'e world =
  env :: 'e
  trace :: "event list"

definition emit :: "event \<Rightarrow> 'e \<Rightarrow> 'e world \<Rightarrow> 'e world" where
  "emit ev e w = \<lparr>env = e, trace = trace w @ [ev]\<rparr>"

subsection \<open>The context (ymodem\_context\_t)\<close>

text \<open>
  \<open>buffer\<close> and \<open>send_buffer\<close> are the caller's arrays, \<open>filename\<close> is the
  \<^verbatim>\<open>char[256]\<close> field. \<open>file_size\<close> is a C \<^verbatim>\<open>int\<close>.
\<close>

record 'e ymodem_context =
  callbacks :: "'e ymodem_callbacks"
  stage :: ymodem_stage
  buffer :: "byte list"
  buffer_size :: nat
  send_buffer :: "byte list"
  send_buffer_size :: nat
  file_handle :: "handle option"
  file_size :: int
  filename :: "byte list"
  packet_seq :: byte
  error_count :: byte

record ymodem_file_info =
  fi_filename :: "byte list"
  fi_filesize :: nat

text \<open>
  Storing \<open>bs\<close> into an array from index \<open>off\<close> on (an assignment to an element, a
  \<^verbatim>\<open>memcpy\<close>, a \<^verbatim>\<open>memset\<close>). A store inside the array keeps its length; a store
  that runs past its end, which is undefined in C, shows as a list of another length.
\<close>

definition write_at :: "'a list \<Rightarrow> nat \<Rightarrow> 'a list \<Rightarrow> 'a list" where
  "write_at buf off bs = take off buf @ bs @ drop (off + length bs) buf"

text \<open>
  The file callbacks are called through their pointers without a check, as
  \<^verbatim>\<open>ctx->callbacks.file_write(...)\<close>. \<^verbatim>\<open>ymodem_send_init\<close> and
  \<^verbatim>\<open>ymodem_receive_init\<close> refuse a context whose required callbacks are null, so the
  call through a null pointer does not arise on an initialised context; the model gives
  it no effect and the result of a failed call.
\<close>

definition call_file_open ::
  "'e ymodem_context \<Rightarrow> byte list \<Rightarrow> bool \<Rightarrow> 'e world \<Rightarrow> handle option \<times> 'e world" where
  "call_file_open ctx name writing w =
     (case file_open (callbacks ctx) of
        None \<Rightarrow> (None, w)
      | Some f \<Rightarrow>
          (case f name writing (env w) of (h, e') \<Rightarrow> (h, emit (FileOpen name writing h) e' w)))"

definition call_file_size ::
  "'e ymodem_context \<Rightarrow> handle option \<Rightarrow> 'e world \<Rightarrow> int \<times> 'e world" where
  "call_file_size ctx h w =
     (case file_size_fn (callbacks ctx) of
        None \<Rightarrow> (-1, w)
      | Some f \<Rightarrow> (case f h (env w) of (n, e') \<Rightarrow> (n, emit (FileSize h n) e' w)))"

definition call_file_read ::
  "'e ymodem_context \<Rightarrow> handle option \<Rightarrow> nat \<Rightarrow> 'e world \<Rightarrow> byte list \<times> 'e world" where
  "call_file_read ctx h n w =
     (case file_read (callbacks ctx) of
        None \<Rightarrow> ([], w)
      | Some f \<Rightarrow> (case f h n (env w) of (bs, e') \<Rightarrow> (bs, emit (FileRead h n bs) e' w)))"

definition call_file_write ::
  "'e ymodem_context \<Rightarrow> handle option \<Rightarrow> byte list \<Rightarrow> 'e world \<Rightarrow> nat \<times> 'e world" where
  "call_file_write ctx h data w =
     (case file_write (callbacks ctx) of
        None \<Rightarrow> (0, w)
      | Some f \<Rightarrow>
          (case f h data (env w) of (n, e') \<Rightarrow> (n, emit (FileWrite h data n) e' w)))"

definition call_file_close :: "'e ymodem_context \<Rightarrow> handle option \<Rightarrow> 'e world \<Rightarrow> 'e world" where
  "call_file_close ctx h w =
     (case file_close (callbacks ctx) of
        None \<Rightarrow> w
      | Some f \<Rightarrow> emit (FileClose h) (f h (env w)) w)"

subsection \<open>CRC-16 (ymodem\_common.c)\<close>

definition crc16_ccitt_table :: "16 word list" where
  "crc16_ccitt_table =
     [0x0000, 0x1021, 0x2042, 0x3063, 0x4084, 0x50A5, 0x60C6, 0x70E7,
      0x8108, 0x9129, 0xA14A, 0xB16B, 0xC18C, 0xD1AD, 0xE1CE, 0xF1EF,
      0x1231, 0x0210, 0x3273, 0x2252, 0x52B5, 0x4294, 0x72F7, 0x62D6,
      0x9339, 0x8318, 0xB37B, 0xA35A, 0xD3BD, 0xC39C, 0xF3FF, 0xE3DE,
      0x2462, 0x3443, 0x0420, 0x1401, 0x64E6, 0x74C7, 0x44A4, 0x5485,
      0xA56A, 0xB54B, 0x8528, 0x9509, 0xE5EE, 0xF5CF, 0xC5AC, 0xD58D,
      0x3653, 0x2672, 0x1611, 0x0630, 0x76D7, 0x66F6, 0x5695, 0x46B4,
      0xB75B, 0xA77A, 0x9719, 0x8738, 0xF7DF, 0xE7FE, 0xD79D, 0xC7BC,
      0x48C4, 0x58E5, 0x6886, 0x78A7, 0x0840, 0x1861, 0x2802, 0x3823,
      0xC9CC, 0xD9ED, 0xE98E, 0xF9AF, 0x8948, 0x9969, 0xA90A, 0xB92B,
      0x5AF5, 0x4AD4, 0x7AB7, 0x6A96, 0x1A71, 0x0A50, 0x3A33, 0x2A12,
      0xDBFD, 0xCBDC, 0xFBBF, 0xEB9E, 0x9B79, 0x8B58, 0xBB3B, 0xAB1A,
      0x6CA6, 0x7C87, 0x4CE4, 0x5CC5, 0x2C22, 0x3C03, 0x0C60, 0x1C41,
      0xEDAE, 0xFD8F, 0xCDEC, 0xDDCD, 0xAD2A, 0xBD0B, 0x8D68, 0x9D49,
      0x7E97, 0x6EB6, 0x5ED5, 0x4EF4, 0x3E13, 0x2E32, 0x1E51, 0x0E70,
      0xFF9F, 0xEFBE, 0xDFDD, 0xCFFC, 0xBF1B, 0xAF3A, 0x9F59, 0x8F78,
      0x9188, 0x81A9, 0xB1CA, 0xA1EB, 0xD10C, 0xC12D, 0xF14E, 0xE16F,
      0x1080, 0x00A1, 0x30C2, 0x20E3, 0x5004, 0x4025, 0x7046, 0x6067,
      0x83B9, 0x9398, 0xA3FB, 0xB3DA, 0xC33D, 0xD31C, 0xE37F, 0xF35E,
      0x02B1, 0x1290, 0x22F3, 0x32D2, 0x4235, 0x5214, 0x6277, 0x7256,
      0xB5EA, 0xA5CB, 0x95A8, 0x8589, 0xF56E, 0xE54F, 0xD52C, 0xC50D,
      0x34E2, 0x24C3, 0x14A0, 0x0481, 0x7466, 0x6447, 0x5424, 0x4405,
      0xA7DB, 0xB7FA, 0x8799, 0x97B8, 0xE75F, 0xF77E, 0xC71D, 0xD73C,
      0x26D3, 0x36F2, 0x0691, 0x16B0, 0x6657, 0x7676, 0x4615, 0x5634,
      0xD94C, 0xC96D, 0xF90E, 0xE92F, 0x99C8, 0x89E9, 0xB98A, 0xA9AB,
      0x5844, 0x4865, 0x7806, 0x6827, 0x18C0, 0x08E1, 0x3882, 0x28A3,
      0xCB7D, 0xDB5C, 0xEB3F, 0xFB1E, 0x8BF9, 0x9BD8, 0xABBB, 0xBB9A,
      0x4A75, 0x5A54, 0x6A37, 0x7A16, 0x0AF1, 0x1AD0, 0x2AB3, 0x3A92,
      0xFD2E, 0xED0F, 0xDD6C, 0xCD4D, 0xBDAA, 0xAD8B, 0x9DE8, 0x8DC9,
      0x7C26, 0x6C07, 0x5C64, 0x4C45, 0x3CA2, 0x2C83, 0x1CE0, 0x0CC1,
      0xEF1F, 0xFF3E, 0xCF5D, 0xDF7C, 0xAF9B, 0xBFBA, 0x8FD9, 0x9FF8,
      0x6E17, 0x7E36, 0x4E55, 0x5E74, 0x2E93, 0x3EB2, 0x0ED1, 0x1EF0]"

text \<open>
  \<^verbatim>\<open>crc = (crc << 8) ^ crc16_ccitt_table[((crc >> 8) ^ *buffer++) & 0xFF]\<close>, for each
  byte in turn; the index is below 256, the length of the table.
\<close>

fun crc16_update :: "16 word \<Rightarrow> byte list \<Rightarrow> 16 word" where
  "crc16_update crc [] = crc"
| "crc16_update crc (b # bs) =
     crc16_update
       (push_bit 8 crc XOR crc16_ccitt_table ! unat ((drop_bit 8 crc XOR ucast b) AND 0xFF)) bs"

definition ymodem_calc_crc16 :: "byte list \<Rightarrow> 16 word" where
  "ymodem_calc_crc16 buf = crc16_update 0 buf"

subsection \<open>The transport adapter (ymodem\_common.c)\<close>

definition ymodem_send_bytes ::
  "'e ymodem_context \<Rightarrow> byte list \<Rightarrow> 'e world \<Rightarrow> nat \<times> 'e world" where
  "ymodem_send_bytes ctx data w =
     (case comm_send (callbacks ctx) of
        None \<Rightarrow> (0, w)
      | Some f \<Rightarrow>
          (case f data (env w) of (sent, e') \<Rightarrow> (sent, emit (CommSend data sent) e' w)))"

definition ymodem_send_byte ::
  "'e ymodem_context \<Rightarrow> byte \<Rightarrow> 'e world \<Rightarrow> bool \<times> 'e world" where
  "ymodem_send_byte ctx data w =
     (case ymodem_send_bytes ctx [data] w of (sent, w') \<Rightarrow> (sent = 1, w'))"

definition ymodem_receive_bytes ::
  "'e ymodem_context \<Rightarrow> nat \<Rightarrow> nat \<Rightarrow> 'e world \<Rightarrow> byte list \<times> 'e world" where
  "ymodem_receive_bytes ctx len timeout_ms w =
     (case comm_receive (callbacks ctx) of
        None \<Rightarrow> ([], w)
      | Some f \<Rightarrow>
          (case f len timeout_ms (env w) of
             (bs, e') \<Rightarrow> (bs, emit (CommReceive len timeout_ms bs) e' w)))"

text \<open>
  The C function returns an \<^verbatim>\<open>int\<close>: the byte, or a negative error. Here the error is
  \<open>Inl\<close> and the byte is \<open>Inr\<close>, so \<^verbatim>\<open>ret < 0\<close> reads \<open>isl ret\<close>.
\<close>

definition ymodem_receive_byte ::
  "'e ymodem_context \<Rightarrow> nat \<Rightarrow> 'e world \<Rightarrow> (ymodem_error + byte) \<times> 'e world" where
  "ymodem_receive_byte ctx timeout_ms w =
     (case comm_receive (callbacks ctx) of
        None \<Rightarrow> (Inl YMODEM_ERR_CODE, w)
      | Some _ \<Rightarrow>
          (case ymodem_receive_bytes ctx 1 timeout_ms w of
             ([], w') \<Rightarrow> (Inl YMODEM_ERR_TMO, w')
           | (b # _, w') \<Rightarrow> (Inr b, w')))"

subsection \<open>The sender: building and sending a packet (ymodem\_send.c)\<close>

text \<open>
  \<open>data\<close> is the memory the C pointer \<^verbatim>\<open>data\<close> points to and \<open>data_size\<close> the
  size passed with it. The frame is assembled in \<open>send_buffer\<close> and its first
  \<open>packet_size\<close> bytes are handed to the transport in one call.
\<close>

definition ymodem_send_packet ::
  "'e ymodem_context \<Rightarrow> byte \<Rightarrow> byte \<Rightarrow> byte list \<Rightarrow> nat \<Rightarrow> 'e world
     \<Rightarrow> ymodem_error \<times> 'e ymodem_context \<times> 'e world" where
  "ymodem_send_packet ctx code seq data data_size w =
     (if code = YMODEM_CODE_SOH \<and> data_size \<noteq> YMODEM_SOH_DATA_SIZE then (YMODEM_ERR_DSZ, ctx, w)
      else if code = YMODEM_CODE_STX \<and> data_size \<noteq> YMODEM_STX_DATA_SIZE then (YMODEM_ERR_DSZ, ctx, w)
      else
        let packet_size = 1 + 1 + 1 + data_size + 2 in
        if send_buffer_size ctx < packet_size then (YMODEM_ERR_DSZ, ctx, w)
        else
          let sb0 = write_at (send_buffer ctx) 0 [code];
              sb1 = write_at sb0 1 [seq];
              sb2 = write_at sb1 2 [NOT seq];
              sb3 = write_at sb2 3 (take data_size data);
              crc = ymodem_calc_crc16 (take data_size (drop 3 sb3));
              sb4 = write_at sb3 (3 + data_size) [ucast (drop_bit 8 crc AND 0xFF)];
              sb5 = write_at sb4 (3 + data_size + 1) [ucast (crc AND 0xFF)];
              ctx' = ctx\<lparr>send_buffer := sb5\<rparr>
          in (case ymodem_send_bytes ctx' (take packet_size sb5) w of
                (sent, w') \<Rightarrow>
                  if sent = 0 then (YMODEM_ERR_CODE, ctx', w') else (YMODEM_ERR_NONE, ctx', w')))"


subsection \<open>The sender: initialisation and the file-info packet (ymodem\_send.c)\<close>

text \<open>
  A pointer argument that the C function compares with \<^verbatim>\<open>NULL\<close> is an \<open>option\<close>.
  The context itself is passed by value, so the \<^verbatim>\<open>ctx == NULL\<close> test has no
  counterpart.
\<close>

definition ymodem_send_init ::
  "'e ymodem_context \<Rightarrow> 'e ymodem_callbacks option \<Rightarrow> byte list option \<Rightarrow> nat
     \<Rightarrow> byte list option \<Rightarrow> nat \<Rightarrow> ymodem_error \<times> 'e ymodem_context" where
  "ymodem_send_init ctx cbs buf buf_size sbuf sbuf_size =
     (case (cbs, buf, sbuf) of
        (Some cb, Some b, Some sb) \<Rightarrow>
          if buf_size < YMODEM_MAX_PACKET_SIZE \<or> sbuf_size < YMODEM_MAX_PACKET_SIZE
          then (YMODEM_ERR_DSZ, ctx)
          else if comm_send cb = None \<or> comm_receive cb = None \<or> file_open cb = None
                  \<or> file_read cb = None \<or> file_close cb = None \<or> file_size_fn cb = None
          then (YMODEM_ERR_CODE, ctx)
          else (YMODEM_ERR_NONE,
                ctx\<lparr>callbacks := cb, buffer := b, buffer_size := buf_size,
                    send_buffer := sb, send_buffer_size := sbuf_size,
                    stage := YMODEM_STAGE_NONE, file_handle := None, file_size := 0,
                    packet_seq := 0, error_count := 0,
                    filename := write_at (filename ctx) 0 [0]\<rparr>)
      | _ \<Rightarrow> (YMODEM_ERR_CODE, ctx))"

definition ymodem_send_cleanup :: "'e ymodem_context \<Rightarrow> 'e world \<Rightarrow> 'e ymodem_context \<times> 'e world" where
  "ymodem_send_cleanup ctx w =
     (if file_handle ctx \<noteq> None
      then (ctx\<lparr>file_handle := None, stage := YMODEM_STAGE_NONE\<rparr>,
            call_file_close ctx (file_handle ctx) w)
      else (ctx\<lparr>stage := YMODEM_STAGE_NONE\<rparr>, w))"

text \<open>The string that starts at a \<^verbatim>\<open>char*\<close>: the bytes before the first NUL.\<close>

definition c_string :: "byte list \<Rightarrow> byte list" where
  "c_string mem = takeWhile (\<lambda>b. b \<noteq> 0) mem"

text \<open>
  \<^verbatim>\<open>strncpy(dst, src, n)\<close> stores \<open>n\<close> bytes: the string, cut at \<open>n\<close>, then NULs.
\<close>

definition strncpy_bytes :: "byte list \<Rightarrow> nat \<Rightarrow> byte list" where
  "strncpy_bytes src n = take n src @ replicate (n - length src) 0"

text \<open>\<^verbatim>\<open>strrchr\<close>, then one past the separator: what follows its last occurrence.\<close>

definition after_last :: "byte \<Rightarrow> byte list \<Rightarrow> byte list option" where
  "after_last c path =
     (if c \<in> set path then Some (rev (takeWhile (\<lambda>b. b \<noteq> c) (rev path))) else None)"

definition ymodem_get_path_basename :: "byte list \<Rightarrow> byte list" where
  "ymodem_get_path_basename path =
     (case after_last 0x2F path of
        Some b \<Rightarrow> b
      | None \<Rightarrow> (case after_last 0x5C path of Some b \<Rightarrow> b | None \<Rightarrow> path))"

text \<open>The characters that \<^verbatim>\<open>snprintf(str, size, "%d", v)\<close> stores before the NUL.\<close>

fun decimal_digits :: "nat \<Rightarrow> byte list" where
  "decimal_digits n =
     (if n < 10 then [0x30 + of_nat n] else decimal_digits (n div 10) @ [0x30 + of_nat (n mod 10)])"

definition snprintf_d :: "nat \<Rightarrow> int \<Rightarrow> byte list" where
  "snprintf_d sz v =
     take (sz - 1) (if v < 0 then 0x2D # decimal_digits (nat (- v)) else decimal_digits (nat v))"

text \<open>
  \<open>fname\<close> is the array that the C pointer \<^verbatim>\<open>filename\<close> points to (the caller passes
  \<^verbatim>\<open>ctx->filename\<close>); the packet data starts at \<^verbatim>\<open>ctx->buffer + 3\<close>.
\<close>

definition ymodem_prepare_file_info_packet ::
  "'e ymodem_context \<Rightarrow> byte list \<Rightarrow> ymodem_error \<times> 'e ymodem_context" where
  "ymodem_prepare_file_info_packet ctx fname =
     (let buf0 = write_at (buffer ctx) 3 (replicate YMODEM_SOH_DATA_SIZE 0);
          name_len = length (c_string fname)
      in if name_len \<ge> YMODEM_SOH_DATA_SIZE then (YMODEM_ERR_DSZ, ctx\<lparr>buffer := buf0\<rparr>)
         else
           let buf1 = write_at buf0 3 (take name_len fname);
               buf2 = write_at buf1 (3 + name_len) [0];
               file_size_str = snprintf_d 20 (file_size ctx);
               size_len = length file_size_str
           in if name_len + 1 + size_len \<ge> YMODEM_SOH_DATA_SIZE
              then (YMODEM_ERR_DSZ, ctx\<lparr>buffer := buf2\<rparr>)
              else (YMODEM_ERR_NONE,
                    ctx\<lparr>buffer := write_at buf2 (3 + name_len + 1) file_size_str\<rparr>))"

subsection \<open>The sender: handshake\<close>

text \<open>
  The loop \<^verbatim>\<open>for (i = 0; i < timeout_s; i++)\<close> that waits for the first \<^verbatim>\<open>C\<close>. The
  first argument counts the iterations that remain, \<open>nat timeout_s\<close> at the start; the
  result is the value of \<^verbatim>\<open>i\<close> when the loop is left.
\<close>

fun send_handshake_wait_c ::
  "nat \<Rightarrow> int \<Rightarrow> 'e ymodem_context \<Rightarrow> 'e world \<Rightarrow> int \<times> 'e world" where
  "send_handshake_wait_c 0 i ctx w = (i, w)"
| "send_handshake_wait_c (Suc n) i ctx w =
     (case ymodem_receive_byte ctx YMODEM_HANDSHAKE_INTERVAL_MS w of
        (ret, w') \<Rightarrow>
          if ret = Inr YMODEM_CODE_C then (i, w')
          else send_handshake_wait_c n (i + 1) ctx w')"

text \<open>
  The loop \<^verbatim>\<open>for (i = 0; i < 5; i++)\<close> that waits for ACK and C after packet 0. The
  first argument counts the attempts that remain; the result is \<^verbatim>\<open>got_ack\<close> and
  \<^verbatim>\<open>got_c\<close> when the loop is left.
\<close>

fun send_handshake_wait_ack_c ::
  "nat \<Rightarrow> bool \<Rightarrow> bool \<Rightarrow> 'e ymodem_context \<Rightarrow> 'e world \<Rightarrow> bool \<times> bool \<times> 'e world" where
  "send_handshake_wait_ack_c 0 got_ack got_c ctx w = (got_ack, got_c, w)"
| "send_handshake_wait_ack_c (Suc n) got_ack got_c ctx w =
     (case ymodem_receive_byte ctx YMODEM_WAIT_PACKET_TIMEOUT_MS w of
        (ret, w') \<Rightarrow>
          let got_ack1 = (if ret = Inr YMODEM_CODE_ACK then True else got_ack);
              got_c1 = (if ret = Inr YMODEM_CODE_ACK then got_c
                        else if ret = Inr YMODEM_CODE_C then True else got_c)
          in if got_ack1 \<and> got_c1 then (got_ack1, got_c1, w')
             else if got_ack1 \<and> \<not> got_c1 then send_handshake_wait_ack_c n got_ack1 got_c1 ctx w'
             else if \<not> got_ack1 \<and> got_c1 then (True, got_c1, w')
             else send_handshake_wait_ack_c n got_ack1 got_c1 ctx w')"

text \<open>
  The end of \<^verbatim>\<open>_ymodem_do_send_handshake\<close>, after packet 0 has been sent: the wait for
  ACK and C, and what follows from it.
\<close>

definition send_handshake_reply ::
  "'e ymodem_context \<Rightarrow> 'e world \<Rightarrow> ymodem_error \<times> 'e ymodem_context \<times> 'e world" where
  "send_handshake_reply ctx w =
     (case send_handshake_wait_ack_c 5 False False ctx w of
        (got_ack, got_c, w') \<Rightarrow>
          if \<not> got_ack \<or> \<not> got_c then (YMODEM_ERR_ACK, ctx, w')
          else (YMODEM_ERR_NONE,
                ctx\<lparr>stage := YMODEM_STAGE_ESTABLISHED, packet_seq := 1\<rparr>, w'))"

definition ymodem_do_send_handshake ::
  "'e ymodem_context \<Rightarrow> int \<Rightarrow> 'e world \<Rightarrow> ymodem_error \<times> 'e ymodem_context \<times> 'e world" where
  "ymodem_do_send_handshake ctx timeout_s w =
     (let ctx0 = ctx\<lparr>stage := YMODEM_STAGE_ESTABLISHING\<rparr> in
      case send_handshake_wait_c (nat timeout_s) 0 ctx0 w of
        (i, w1) \<Rightarrow>
          if i = timeout_s then (YMODEM_ERR_TMO, ctx0, w1)
          else
            (case ymodem_prepare_file_info_packet ctx0 (filename ctx0) of
               (ret, ctx1) \<Rightarrow>
                 if ret \<noteq> YMODEM_ERR_NONE then (ret, ctx1, w1)
                 else
                   (case ymodem_send_packet ctx1 YMODEM_CODE_SOH 0 (drop 3 (buffer ctx1))
                           YMODEM_SOH_DATA_SIZE w1 of
                      (ret, ctx2, w2) \<Rightarrow>
                        if ret \<noteq> YMODEM_ERR_NONE then (ret, ctx2, w2)
                        else send_handshake_reply ctx2 w2)))"

subsection \<open>The sender: data transfer\<close>

text \<open>
  \<^verbatim>\<open>size_t\<close> is taken as 64 bits wide, as on the demo's host; \<open>size_t_sub\<close> is its
  subtraction, which wraps around.
\<close>

definition size_t_sub :: "nat \<Rightarrow> nat \<Rightarrow> nat" where
  "size_t_sub a b = (if b \<le> a then a - b else a + 2 ^ 64 - b)"

text \<open>
  The loop \<^verbatim>\<open>for (retry_read = 0; retry_read < 10; retry_read++)\<close> that fills the data
  region from the file. The first argument counts the iterations that remain.
\<close>

fun send_trans_read ::
  "nat \<Rightarrow> nat \<Rightarrow> nat \<Rightarrow> 'e ymodem_context \<Rightarrow> 'e world \<Rightarrow> nat \<times> 'e ymodem_context \<times> 'e world" where
  "send_trans_read 0 actual_read read_size ctx w = (actual_read, ctx, w)"
| "send_trans_read (Suc n) actual_read read_size ctx w =
     (case call_file_read ctx (file_handle ctx) (size_t_sub read_size actual_read) w of
        (bs, w') \<Rightarrow>
          let ctx' = ctx\<lparr>buffer := write_at (buffer ctx) (3 + actual_read) bs\<rparr>;
              actual_read' = actual_read + length bs
          in if actual_read' = read_size then (actual_read', ctx', w')
             else send_trans_read n actual_read' read_size ctx' w')"

text \<open>
  The loop \<^verbatim>\<open>while (retries < YMODEM_MAX_ERRORS)\<close> that sends one data packet until it
  is acknowledged. The result is \<open>Inl\<close> of the error when the function returns from
  inside the loop, and \<open>Inr\<close> of the value of \<^verbatim>\<open>retries\<close> when the loop is left.
\<close>

function send_trans_retry ::
  "nat \<Rightarrow> 'e ymodem_context \<Rightarrow> byte \<Rightarrow> nat \<Rightarrow> 'e world
     \<Rightarrow> (ymodem_error + nat) \<times> 'e ymodem_context \<times> 'e world" where
  "send_trans_retry retries ctx packet_type read_size w =
     (if retries < YMODEM_MAX_ERRORS then
        (case ymodem_send_packet ctx packet_type (packet_seq ctx) (drop 3 (buffer ctx)) read_size w of
           (ret, ctx1, w1) \<Rightarrow>
             if ret \<noteq> YMODEM_ERR_NONE
             then send_trans_retry (retries + 1) ctx1 packet_type read_size w1
             else
               (case ymodem_receive_byte ctx1 YMODEM_WAIT_PACKET_TIMEOUT_MS w1 of
                  (r, w2) \<Rightarrow>
                    if r = Inr YMODEM_CODE_ACK then (Inr retries, ctx1, w2)
                    else if r = Inr YMODEM_CODE_NAK
                    then send_trans_retry (retries + 1) ctx1 packet_type read_size w2
                    else if r = Inr YMODEM_CODE_C then (Inr retries, ctx1, w2)
                    else if r = Inr YMODEM_CODE_CAN then (Inl YMODEM_ERR_CAN, ctx1, w2)
                    else send_trans_retry (retries + 1) ctx1 packet_type read_size w2))
      else (Inr retries, ctx, w))"
  by pat_completeness auto
termination
  by (relation "measure (\<lambda>(retries, ctx, packet_type, read_size, w). YMODEM_MAX_ERRORS - retries)")
    auto

declare send_trans_retry.simps [simp del]

text \<open>
  The body of \<^verbatim>\<open>while (1)\<close> in \<^verbatim>\<open>_ymodem_do_send_trans\<close>, in three parts. In each,
  \<open>Inl\<close> is the function's return (both \<^verbatim>\<open>break\<close>s lead to
  \<^verbatim>\<open>return YMODEM_ERR_NONE\<close>) and \<open>Inr\<close> the state with which the loop goes round
  again.

  First the block that pads a short read with \<^verbatim>\<open>0x1A\<close> and marks the last packet.
\<close>

definition send_trans_pad :: "'e ymodem_context \<Rightarrow> nat \<Rightarrow> 'e ymodem_context" where
  "send_trans_pad ctx actual_read =
     (if actual_read < YMODEM_STX_DATA_SIZE
      then ctx\<lparr>buffer := write_at (buffer ctx) (3 + actual_read)
                   (replicate (size_t_sub YMODEM_STX_DATA_SIZE actual_read) 0x1A),
               stage := YMODEM_STAGE_FINISHING\<rparr>
      else ctx)"

text \<open>
  Then, from \<^verbatim>\<open>retries = 0\<close> on: the packet is sent until it is acknowledged, the
  sequence number advances, and the loop ends after the last packet.
  \<^verbatim>\<open>(ctx->packet_seq + 1) & 0xFF\<close> is computed in \<^verbatim>\<open>int\<close> and stored into the
  \<^verbatim>\<open>uint8_t\<close>.
\<close>

definition send_trans_packet ::
  "'e ymodem_context \<Rightarrow> byte \<Rightarrow> nat \<Rightarrow> 'e world
     \<Rightarrow> (ymodem_error \<times> 'e ymodem_context \<times> 'e world) + ('e ymodem_context \<times> 'e world)" where
  "send_trans_packet ctx packet_type read_size w =
     (case send_trans_retry 0 ctx packet_type read_size w of
        (Inl e, ctx1, w1) \<Rightarrow> Inl (e, ctx1, w1)
      | (Inr retries, ctx1, w1) \<Rightarrow>
          if retries \<ge> YMODEM_MAX_ERRORS then Inl (YMODEM_ERR_ACK, ctx1, w1)
          else
            let ctx2 = ctx1\<lparr>packet_seq :=
                         ucast ((ucast (packet_seq ctx1) + 1 :: 32 word) AND 0xFF)\<rparr>
            in if stage ctx2 = YMODEM_STAGE_FINISHING
               then Inl (YMODEM_ERR_NONE, ctx2, w1)
               else Inr (ctx2, w1))"

text \<open>The whole body: read a block, stop at the end of the file, pad, choose the header.\<close>

definition send_trans_step ::
  "'e ymodem_context \<Rightarrow> 'e world
     \<Rightarrow> (ymodem_error \<times> 'e ymodem_context \<times> 'e world) + ('e ymodem_context \<times> 'e world)" where
  "send_trans_step ctx w =
     (case send_trans_read 10 0 YMODEM_STX_DATA_SIZE ctx w of
        (actual_read, ctx1, w1) \<Rightarrow>
          if actual_read = 0 then Inl (YMODEM_ERR_NONE, ctx1, w1)
          else
            let ctx2 = send_trans_pad ctx1 actual_read;
                packet_type = (if actual_read \<le> 128 then YMODEM_CODE_SOH else YMODEM_CODE_STX);
                read_size = (if actual_read \<le> 128 then YMODEM_SOH_DATA_SIZE
                             else YMODEM_STX_DATA_SIZE)
            in send_trans_packet ctx2 packet_type read_size w1)"

text \<open>
  The loop itself. It goes round as long as the file yields full blocks, so it is a partial
  function: \<open>None\<close> is a run that never returns.
\<close>

partial_function (option) send_trans_loop ::
  "'e ymodem_context \<Rightarrow> 'e world \<Rightarrow> (ymodem_error \<times> 'e ymodem_context \<times> 'e world) option" where
  "send_trans_loop ctx w =
     (case send_trans_step ctx w of
        Inl r \<Rightarrow> Some r
      | Inr (ctx', w') \<Rightarrow> send_trans_loop ctx' w')"

definition ymodem_do_send_trans ::
  "'e ymodem_context \<Rightarrow> 'e world \<Rightarrow> (ymodem_error \<times> 'e ymodem_context \<times> 'e world) option" where
  "ymodem_do_send_trans ctx w =
     send_trans_loop (ctx\<lparr>stage := YMODEM_STAGE_TRANSMITTING, error_count := 0\<rparr>) w"

subsection \<open>The sender: finishing\<close>

text \<open>
  The first loop: send EOT until a NAK answers. As for \<open>send_trans_retry\<close>, \<open>Inl\<close> is a
  return from inside the loop and \<open>Inr\<close> the value of \<^verbatim>\<open>retries\<close> when the loop is left.
\<close>

function send_fin_eot1 ::
  "nat \<Rightarrow> 'e ymodem_context \<Rightarrow> 'e world \<Rightarrow> (ymodem_error + nat) \<times> 'e world" where
  "send_fin_eot1 retries ctx w =
     (if retries < YMODEM_MAX_ERRORS then
        (case ymodem_send_byte ctx YMODEM_CODE_EOT w of
           (ok, w1) \<Rightarrow>
             if \<not> ok then (Inl YMODEM_ERR_CODE, w1)
             else
               (case ymodem_receive_byte ctx YMODEM_WAIT_PACKET_TIMEOUT_MS w1 of
                  (r, w2) \<Rightarrow>
                    if r = Inr YMODEM_CODE_NAK then (Inr retries, w2)
                    else send_fin_eot1 (retries + 1) ctx w2))
      else (Inr retries, w))"
  by pat_completeness auto
termination
  by (relation "measure (\<lambda>(retries, ctx, w). YMODEM_MAX_ERRORS - retries)") auto

declare send_fin_eot1.simps [simp del]

text \<open>The second loop: send EOT until an ACK, or a NAK, answers.\<close>

function send_fin_eot2 ::
  "nat \<Rightarrow> 'e ymodem_context \<Rightarrow> 'e world \<Rightarrow> (ymodem_error + nat) \<times> 'e world" where
  "send_fin_eot2 retries ctx w =
     (if retries < YMODEM_MAX_ERRORS then
        (case ymodem_send_byte ctx YMODEM_CODE_EOT w of
           (ok, w1) \<Rightarrow>
             if \<not> ok then (Inl YMODEM_ERR_CODE, w1)
             else
               (case ymodem_receive_byte ctx YMODEM_WAIT_PACKET_TIMEOUT_MS w1 of
                  (r, w2) \<Rightarrow>
                    if r = Inr YMODEM_CODE_ACK then (Inr retries, w2)
                    else if r = Inr YMODEM_CODE_NAK then (Inr retries, w2)
                    else send_fin_eot2 (retries + 1) ctx w2))
      else (Inr retries, w))"
  by pat_completeness auto
termination
  by (relation "measure (\<lambda>(retries, ctx, w). YMODEM_MAX_ERRORS - retries)") auto

declare send_fin_eot2.simps [simp del]

text \<open>
  The third loop waits for \<^verbatim>\<open>C\<close>. An ACK does not count as a retry, so the loop has no
  bound of its own: it is a partial function. The result is \<^verbatim>\<open>got_c\<close>.
\<close>

partial_function (option) send_fin_wait_c ::
  "nat \<Rightarrow> 'e ymodem_context \<Rightarrow> 'e world \<Rightarrow> (bool \<times> 'e world) option" where
  "send_fin_wait_c retries ctx w =
     (if retries < YMODEM_MAX_ERRORS then
        (case ymodem_receive_byte ctx YMODEM_WAIT_PACKET_TIMEOUT_MS w of
           (r, w1) \<Rightarrow>
             if r = Inr YMODEM_CODE_C then Some (True, w1)
             else if r = Inr YMODEM_CODE_ACK then send_fin_wait_c retries ctx w1
             else send_fin_wait_c (retries + 1) ctx w1)
      else Some (False, w))"

text \<open>
  The end of \<^verbatim>\<open>_ymodem_do_send_fin\<close>, from the \<^verbatim>\<open>memset\<close> on: the batch-terminator
  packet and the wait for the final ACK.
\<close>

definition send_fin_null_packet ::
  "'e ymodem_context \<Rightarrow> 'e world \<Rightarrow> ymodem_error \<times> 'e ymodem_context \<times> 'e world" where
  "send_fin_null_packet ctx w =
     (let ctx1 = ctx\<lparr>buffer := write_at (buffer ctx) 3 (replicate YMODEM_SOH_DATA_SIZE 0)\<rparr> in
      case ymodem_send_packet ctx1 YMODEM_CODE_SOH 0 (drop 3 (buffer ctx1)) YMODEM_SOH_DATA_SIZE w of
        (ret, ctx2, w1) \<Rightarrow>
          if ret \<noteq> YMODEM_ERR_NONE then (ret, ctx2, w1)
          else
            (case ymodem_receive_byte ctx2 YMODEM_WAIT_PACKET_TIMEOUT_MS w1 of
               (r, w2) \<Rightarrow> (YMODEM_ERR_NONE, ctx2\<lparr>stage := YMODEM_STAGE_FINISHED\<rparr>, w2)))"

definition ymodem_do_send_fin ::
  "'e ymodem_context \<Rightarrow> 'e world \<Rightarrow> (ymodem_error \<times> 'e ymodem_context \<times> 'e world) option" where
  "ymodem_do_send_fin ctx w =
     (let ctx0 = ctx\<lparr>stage := YMODEM_STAGE_FINISHING\<rparr> in
      case send_fin_eot1 0 ctx0 w of
        (Inl e, w1) \<Rightarrow> Some (e, ctx0, w1)
      | (Inr retries, w1) \<Rightarrow>
          if retries \<ge> YMODEM_MAX_ERRORS then Some (YMODEM_ERR_ACK, ctx0, w1)
          else
            (case send_fin_eot2 0 ctx0 w1 of
               (Inl e, w2) \<Rightarrow> Some (e, ctx0, w2)
             | (Inr retries2, w2) \<Rightarrow>
                 if retries2 \<ge> YMODEM_MAX_ERRORS then Some (YMODEM_ERR_ACK, ctx0, w2)
                 else
                   (case send_fin_wait_c 0 ctx0 w2 of
                      None \<Rightarrow> None
                    | Some (got_c, w3) \<Rightarrow> Some (send_fin_null_packet ctx0 w3))))"

subsection \<open>The sender: ymodem\_send\_file\<close>

definition ymodem_send_file ::
  "'e ymodem_context \<Rightarrow> byte list option \<Rightarrow> int \<Rightarrow> 'e world
     \<Rightarrow> (ymodem_error \<times> 'e ymodem_context \<times> 'e world) option" where
  "ymodem_send_file ctx fname_ptr handshake_timeout_s w =
     (case fname_ptr of
        None \<Rightarrow> Some (YMODEM_ERR_CODE, ctx, w)
      | Some fname \<Rightarrow>
          (case call_file_open ctx fname False w of
             (h, w1) \<Rightarrow>
               let ctx1 = ctx\<lparr>file_handle := h\<rparr> in
               if file_handle ctx1 = None then Some (YMODEM_ERR_FILE, ctx1, w1)
               else
                 (case call_file_size ctx1 (file_handle ctx1) w1 of
                    (sz, w2) \<Rightarrow>
                      let ctx2 = ctx1\<lparr>file_size := sz\<rparr> in
                      if file_size ctx2 < 0
                      then Some (YMODEM_ERR_FILE, ctx2\<lparr>file_handle := None\<rparr>,
                                 call_file_close ctx2 (file_handle ctx2) w2)
                      else
                        let basename = ymodem_get_path_basename fname;
                            fn1 = write_at (filename ctx2) 0
                                    (strncpy_bytes basename (YMODEM_MAX_FILENAME_LENGTH - 1));
                            fn2 = write_at fn1 (YMODEM_MAX_FILENAME_LENGTH - 1) [0];
                            ctx3 = ctx2\<lparr>filename := fn2\<rparr>
                        in (case ymodem_do_send_handshake ctx3 handshake_timeout_s w2 of
                              (ret, ctx4, w3) \<Rightarrow>
                                if ret \<noteq> YMODEM_ERR_NONE
                                then Some (ret, ctx4\<lparr>file_handle := None\<rparr>,
                                           call_file_close ctx4 (file_handle ctx4) w3)
                                else
                                  (case ymodem_do_send_trans ctx4 w3 of
                                     None \<Rightarrow> None
                                   | Some (ret, ctx5, w4) \<Rightarrow>
                                       if ret \<noteq> YMODEM_ERR_NONE
                                       then Some (ret, ctx5\<lparr>file_handle := None\<rparr>,
                                                  call_file_close ctx5 (file_handle ctx5) w4)
                                       else
                                         (case ymodem_do_send_fin ctx5 w4 of
                                            None \<Rightarrow> None
                                          | Some (ret, ctx6, w5) \<Rightarrow>
                                              Some (ret, ctx6\<lparr>file_handle := None\<rparr>,
                                                    call_file_close ctx6 (file_handle ctx6) w5)))))))"

subsection \<open>The receiver: initialisation (ymodem\_receive.c)\<close>

definition ymodem_receive_init ::
  "'e ymodem_context \<Rightarrow> 'e ymodem_callbacks option \<Rightarrow> byte list option \<Rightarrow> nat
     \<Rightarrow> ymodem_error \<times> 'e ymodem_context" where
  "ymodem_receive_init ctx cbs buf buf_size =
     (case (cbs, buf) of
        (Some cb, Some b) \<Rightarrow>
          if buf_size < YMODEM_MAX_PACKET_SIZE then (YMODEM_ERR_DSZ, ctx)
          else if comm_send cb = None \<or> comm_receive cb = None \<or> file_open cb = None
                  \<or> file_write cb = None \<or> file_close cb = None
          then (YMODEM_ERR_CODE, ctx)
          else (YMODEM_ERR_NONE,
                ctx\<lparr>callbacks := cb, buffer := b, buffer_size := buf_size,
                    stage := YMODEM_STAGE_NONE, file_handle := None, file_size := 0,
                    packet_seq := 0, error_count := 0,
                    filename := write_at (filename ctx) 0 [0]\<rparr>)
      | _ \<Rightarrow> (YMODEM_ERR_CODE, ctx))"

definition ymodem_receive_cleanup ::
  "'e ymodem_context \<Rightarrow> 'e world \<Rightarrow> 'e ymodem_context \<times> 'e world" where
  "ymodem_receive_cleanup ctx w =
     (if file_handle ctx \<noteq> None
      then (ctx\<lparr>file_handle := None, stage := YMODEM_STAGE_NONE\<rparr>,
            call_file_close ctx (file_handle ctx) w)
      else (ctx\<lparr>stage := YMODEM_STAGE_NONE\<rparr>, w))"

subsection \<open>The receiver: reading and validating a packet\<close>

text \<open>
  The header byte is already in \<^verbatim>\<open>buf[0]\<close>. The C function stores the sequence number
  and the data size through two out-parameters; here they are the second and third
  component of the result (0 where the C function returns before the store: its callers
  read them only after \<open>YMODEM_ERR_NONE\<close>). The bytes that arrive are stored from
  \<^verbatim>\<open>buf + 1\<close> on, also when fewer arrive than the packet needs.
\<close>

definition ymodem_receive_packet ::
  "'e ymodem_context \<Rightarrow> 'e world
     \<Rightarrow> ymodem_error \<times> byte \<times> nat \<times> 'e ymodem_context \<times> 'e world" where
  "ymodem_receive_packet ctx w =
     (let buf = buffer ctx in
      if buf ! 0 \<noteq> YMODEM_CODE_SOH \<and> buf ! 0 \<noteq> YMODEM_CODE_STX then (YMODEM_ERR_CODE, 0, 0, ctx, w)
      else
        let packet_size = (if buf ! 0 = YMODEM_CODE_SOH then YMODEM_SOH_PACKET_SIZE
                           else YMODEM_STX_PACKET_SIZE);
            data_size = (if buf ! 0 = YMODEM_CODE_SOH then YMODEM_SOH_DATA_SIZE
                         else YMODEM_STX_DATA_SIZE)
        in (case ymodem_receive_bytes ctx (packet_size - 1) YMODEM_WAIT_PACKET_TIMEOUT_MS w of
              (bs, w1) \<Rightarrow>
                let buf1 = write_at buf 1 bs;
                    ctx1 = ctx\<lparr>buffer := buf1\<rparr>
                in if length bs \<noteq> packet_size - 1 then (YMODEM_ERR_TMO, 0, data_size, ctx1, w1)
                   else
                     let seq = buf1 ! 1 in
                     if buf1 ! 2 \<noteq> NOT seq then (YMODEM_ERR_SEQ, seq, data_size, ctx1, w1)
                     else
                       let received_crc =
                             (push_bit 8 (ucast (buf1 ! (packet_size - 2)))
                                OR ucast (buf1 ! (packet_size - 1)) :: 16 word);
                           calculated_crc = ymodem_calc_crc16 (take data_size (drop 3 buf1))
                       in if received_crc \<noteq> calculated_crc
                          then (YMODEM_ERR_CRC, seq, data_size, ctx1, w1)
                          else (YMODEM_ERR_NONE, seq, data_size, ctx1, w1)))"

subsection \<open>The receiver: handshake\<close>

text \<open>
  The loop \<^verbatim>\<open>for (i = 0; i < timeout_s; i++)\<close> that sends \<^verbatim>\<open>C\<close> and waits for a packet
  header. The first argument counts the iterations that remain; \<open>Inl\<close> is a return from
  inside the loop, \<open>Inr\<close> the value of \<^verbatim>\<open>i\<close> when the loop is left.
\<close>

fun recv_handshake_wait ::
  "nat \<Rightarrow> int \<Rightarrow> 'e ymodem_context \<Rightarrow> 'e world
     \<Rightarrow> (ymodem_error + int) \<times> 'e ymodem_context \<times> 'e world" where
  "recv_handshake_wait 0 i ctx w = (Inr i, ctx, w)"
| "recv_handshake_wait (Suc n) i ctx w =
     (case ymodem_send_byte ctx YMODEM_CODE_C w of
        (ok, w1) \<Rightarrow>
          if \<not> ok then (Inl YMODEM_ERR_CODE, ctx, w1)
          else
            (case ymodem_receive_byte ctx YMODEM_HANDSHAKE_INTERVAL_MS w1 of
               (Inr code, w2) \<Rightarrow>
                 if code = YMODEM_CODE_SOH \<or> code = YMODEM_CODE_STX
                 then (Inr i, ctx\<lparr>buffer := write_at (buffer ctx) 0 [code]\<rparr>, w2)
                 else recv_handshake_wait n (i + 1) ctx w2
             | (Inl e, w2) \<Rightarrow> recv_handshake_wait n (i + 1) ctx w2))"

definition ymodem_do_handshake ::
  "'e ymodem_context \<Rightarrow> int \<Rightarrow> 'e world \<Rightarrow> ymodem_error \<times> 'e ymodem_context \<times> 'e world" where
  "ymodem_do_handshake ctx timeout_s w =
     (let ctx0 = ctx\<lparr>stage := YMODEM_STAGE_ESTABLISHING\<rparr> in
      case recv_handshake_wait (nat timeout_s) 0 ctx0 w of
        (Inl e, ctx1, w1) \<Rightarrow> (e, ctx1, w1)
      | (Inr i, ctx1, w1) \<Rightarrow>
          if i = timeout_s then (YMODEM_ERR_TMO, ctx1, w1)
          else
            (case ymodem_receive_packet ctx1 w1 of
               (ret, seq, data_size, ctx2, w2) \<Rightarrow>
                 if ret \<noteq> YMODEM_ERR_NONE then (ret, ctx2, w2)
                 else if seq \<noteq> 0 then (YMODEM_ERR_SEQ, ctx2, w2)
                 else
                   let ctx3 = ctx2\<lparr>stage := YMODEM_STAGE_ESTABLISHED\<rparr> in
                   (case ymodem_send_byte ctx3 YMODEM_CODE_ACK w2 of
                      (ok, w3) \<Rightarrow>
                        if \<not> ok then (YMODEM_ERR_CODE, ctx3, w3)
                        else
                          (case ymodem_send_byte ctx3 YMODEM_CODE_C w3 of
                             (ok2, w4) \<Rightarrow>
                               if \<not> ok2 then (YMODEM_ERR_CODE, ctx3, w4)
                               else (YMODEM_ERR_NONE, ctx3, w4)))))"

subsection \<open>The receiver: the file-info packet\<close>

text \<open>
  The loop \<^verbatim>\<open>while (filename[name_len] != '\0' && name_len < YMODEM_MAX_FILENAME_LENGTH - 1)\<close>.
  The first argument is the memory from \<^verbatim>\<open>filename + name_len\<close> on. The list ends where
  the caller's buffer ends; on a buffer of \<open>YMODEM_MAX_PACKET_SIZE\<close> bytes the loop stops
  before.
\<close>

fun parse_name_len :: "byte list \<Rightarrow> nat \<Rightarrow> nat" where
  "parse_name_len [] name_len = name_len"
| "parse_name_len (b # mem) name_len =
     (if b \<noteq> 0 \<and> name_len < YMODEM_MAX_FILENAME_LENGTH - 1
      then parse_name_len mem (name_len + 1) else name_len)"

text \<open>
  \<^verbatim>\<open>ctx->file_size\<close> is an \<^verbatim>\<open>int\<close>. Its overflow in
  \<^verbatim>\<open>ctx->file_size * 10 + (*file_size_str - '0')\<close> is undefined in C; the model wraps
  around in 32-bit two's complement, as the usual targets do. The conversion of an
  \<^verbatim>\<open>int\<close> to \<^verbatim>\<open>size_t\<close> is modulo \<open>2 ^ 64\<close>.
\<close>

definition int32_wrap :: "int \<Rightarrow> int" where
  "int32_wrap x = sint (word_of_int x :: 32 word)"

definition size_t_of_int :: "int \<Rightarrow> nat" where
  "size_t_of_int x = nat (x mod 2 ^ 64)"

fun parse_file_size :: "byte list \<Rightarrow> int \<Rightarrow> int" where
  "parse_file_size [] acc = acc"
| "parse_file_size (c # cs) acc =
     (if 0x30 \<le> c \<and> c \<le> 0x39
      then parse_file_size cs (int32_wrap (acc * 10 + (uint c - 0x30))) else acc)"

definition ymodem_parse_file_info ::
  "'e ymodem_context \<Rightarrow> ymodem_file_info
     \<Rightarrow> ymodem_error \<times> 'e ymodem_context \<times> ymodem_file_info" where
  "ymodem_parse_file_info ctx file_info =
     (let fname = drop 3 (buffer ctx) in
      if fname ! 0 = 0 then (YMODEM_ERR_FILE, ctx, file_info)
      else
        let name_len0 = parse_name_len fname 0 in
        if name_len0 = 0 then (YMODEM_ERR_FILE, ctx, file_info)
        else
          let name_len = (if name_len0 \<ge> YMODEM_MAX_FILENAME_LENGTH
                          then YMODEM_MAX_FILENAME_LENGTH - 1 else name_len0);
              cf1 = write_at (filename ctx) 0 (take name_len fname);
              cf2 = write_at cf1 name_len [0];
              ff1 = write_at (fi_filename file_info) 0 (take name_len fname);
              ff2 = write_at ff1 name_len [0];
              file_size_str = drop (name_len + 1) fname
          in if file_size_str ! 0 \<noteq> 0
             then
               let fs = parse_file_size file_size_str 0 in
               (YMODEM_ERR_NONE, ctx\<lparr>filename := cf2, file_size := fs\<rparr>,
                file_info\<lparr>fi_filename := ff2, fi_filesize := size_t_of_int fs\<rparr>)
             else
               (YMODEM_ERR_NONE, ctx\<lparr>filename := cf2, file_size := 0\<rparr>,
                file_info\<lparr>fi_filename := ff2, fi_filesize := 0\<rparr>))"

subsection \<open>The receiver: data transfer\<close>

text \<open>
  The number of bytes of a data packet that go to the file. \<^verbatim>\<open>total_received\<close> and
  \<^verbatim>\<open>data_size\<close> are \<^verbatim>\<open>size_t\<close>, \<^verbatim>\<open>ctx->file_size\<close> is an \<^verbatim>\<open>int\<close> that the comparison
  and the subtraction convert to \<^verbatim>\<open>size_t\<close>.
\<close>

definition trans_bytes_to_write :: "int \<Rightarrow> nat \<Rightarrow> nat \<Rightarrow> nat" where
  "trans_bytes_to_write fsize total_received data_size =
     (if fsize > 0 then
        (if (total_received + data_size) mod 2 ^ 64 \<ge> size_t_of_int fsize
         then size_t_sub (size_t_of_int fsize) total_received
         else data_size)
      else data_size)"

text \<open>
  The three places that count an error have the same shape: count, give up when the
  count has passed \<open>YMODEM_MAX_ERRORS\<close>, else send NAK and go round again.
  \<^verbatim>\<open>error_count\<close> is a \<^verbatim>\<open>uint8_t\<close>.
\<close>

definition trans_count_error ::
  "'e ymodem_context \<Rightarrow> ymodem_error \<Rightarrow> byte \<Rightarrow> nat \<Rightarrow> 'e world
     \<Rightarrow> (ymodem_error \<times> 'e ymodem_context \<times> 'e world)
         + ('e ymodem_context \<times> byte \<times> nat \<times> 'e world)" where
  "trans_count_error ctx err expected_seq total_received w =
     (let ctx1 = ctx\<lparr>error_count := error_count ctx + 1\<rparr> in
      if unat (error_count ctx1) > YMODEM_MAX_ERRORS then Inl (err, ctx1, w)
      else
        (case ymodem_send_byte ctx1 YMODEM_CODE_NAK w of
           (ok, w1) \<Rightarrow>
             if \<not> ok then Inl (YMODEM_ERR_CODE, ctx1, w1)
             else Inr (ctx1, expected_seq, total_received, w1)))"

text \<open>
  The block \<^verbatim>\<open>if (ctx->file_handle != NULL) { ... }\<close> that writes the data of a valid
  in-sequence packet: \<open>Inl\<close> is the return on a short write, \<open>Inr\<close> the new
  \<^verbatim>\<open>total_received\<close>.
\<close>

definition trans_write_data ::
  "'e ymodem_context \<Rightarrow> nat \<Rightarrow> nat \<Rightarrow> 'e world
     \<Rightarrow> (ymodem_error \<times> 'e ymodem_context \<times> 'e world) + (nat \<times> 'e world)" where
  "trans_write_data ctx total_received data_size w =
     (if file_handle ctx \<noteq> None then
        (let bytes_to_write = trans_bytes_to_write (file_size ctx) total_received data_size in
         case call_file_write ctx (file_handle ctx)
                (take bytes_to_write (drop 3 (buffer ctx))) w of
           (written, w1) \<Rightarrow>
             if written \<noteq> bytes_to_write then Inl (YMODEM_ERR_FILE, ctx, w1)
             else Inr ((total_received + written) mod 2 ^ 64, w1))
      else Inr (total_received, w))"

text \<open>
  One pass through the body of \<^verbatim>\<open>while (1)\<close> in \<^verbatim>\<open>_ymodem_do_trans\<close>. The loop state
  is the context, \<^verbatim>\<open>expected_seq\<close>, \<^verbatim>\<open>total_received\<close> and the world; \<open>Inl\<close> is the
  function's return, \<open>Inr\<close> the state with which the loop goes round again.
\<close>

definition do_trans_step ::
  "'e ymodem_context \<Rightarrow> byte \<Rightarrow> nat \<Rightarrow> 'e world
     \<Rightarrow> (ymodem_error \<times> 'e ymodem_context \<times> 'e world)
         + ('e ymodem_context \<times> byte \<times> nat \<times> 'e world)" where
  "do_trans_step ctx expected_seq total_received w =
     (case ymodem_receive_byte ctx YMODEM_WAIT_PACKET_TIMEOUT_MS w of
        (Inl e, w1) \<Rightarrow> Inl (YMODEM_ERR_TMO, ctx, w1)
      | (Inr code, w1) \<Rightarrow>
          let ctx1 = ctx\<lparr>buffer := write_at (buffer ctx) 0 [code]\<rparr> in
          if code = YMODEM_CODE_EOT then Inl (YMODEM_ERR_NONE, ctx1, w1)
          else if code \<noteq> YMODEM_CODE_SOH \<and> code \<noteq> YMODEM_CODE_STX
          then trans_count_error ctx1 YMODEM_ERR_CODE expected_seq total_received w1
          else
            (case ymodem_receive_packet ctx1 w1 of
               (ret, seq, data_size, ctx2, w2) \<Rightarrow>
                 if ret \<noteq> YMODEM_ERR_NONE
                 then trans_count_error ctx2 ret expected_seq total_received w2
                 else if seq \<noteq> expected_seq
                 then trans_count_error ctx2 YMODEM_ERR_SEQ expected_seq total_received w2
                 else
                   let ctx3 = ctx2\<lparr>error_count := 0\<rparr> in
                   (case trans_write_data ctx3 total_received data_size w2 of
                      Inl r \<Rightarrow> Inl r
                    | Inr (total_received', w3) \<Rightarrow>
                        (case ymodem_send_byte ctx3 YMODEM_CODE_ACK w3 of
                           (ok, w4) \<Rightarrow>
                             if \<not> ok then Inl (YMODEM_ERR_CODE, ctx3, w4)
                             else Inr (ctx3,
                                       ucast ((ucast expected_seq + 1 :: 32 word) AND 0xFF),
                                       total_received', w4)))))"

partial_function (option) do_trans_loop ::
  "'e ymodem_context \<Rightarrow> byte \<Rightarrow> nat \<Rightarrow> 'e world
     \<Rightarrow> (ymodem_error \<times> 'e ymodem_context \<times> 'e world) option" where
  "do_trans_loop ctx expected_seq total_received w =
     (case do_trans_step ctx expected_seq total_received w of
        Inl r \<Rightarrow> Some r
      | Inr (ctx', expected_seq', total_received', w') \<Rightarrow>
          do_trans_loop ctx' expected_seq' total_received' w')"

definition ymodem_do_trans ::
  "'e ymodem_context \<Rightarrow> 'e world \<Rightarrow> (ymodem_error \<times> 'e ymodem_context \<times> 'e world) option" where
  "ymodem_do_trans ctx w =
     do_trans_loop (ctx\<lparr>stage := YMODEM_STAGE_TRANSMITTING, error_count := 0\<rparr>) 1 0 w"

text \<open>
  The loop state after \<open>n\<close> passes, for the runs that have not returned by then: the
  states that a run of the loop goes through, whether or not it ends.
\<close>

fun do_trans_after ::
  "nat \<Rightarrow> 'e ymodem_context \<Rightarrow> byte \<Rightarrow> nat \<Rightarrow> 'e world
     \<Rightarrow> (ymodem_error \<times> 'e ymodem_context \<times> 'e world)
         + ('e ymodem_context \<times> byte \<times> nat \<times> 'e world)" where
  "do_trans_after 0 ctx expected_seq total_received w = Inr (ctx, expected_seq, total_received, w)"
| "do_trans_after (Suc n) ctx expected_seq total_received w =
     (case do_trans_step ctx expected_seq total_received w of
        Inl r \<Rightarrow> Inl r
      | Inr (ctx', expected_seq', total_received', w') \<Rightarrow>
          do_trans_after n ctx' expected_seq' total_received' w')"

subsection \<open>The receiver: finishing\<close>

text \<open>
  The loop \<^verbatim>\<open>while (retries < YMODEM_MAX_ERRORS)\<close> that waits for the final packet. A
  valid packet 0 whose filename is not empty goes round again without counting a retry,
  so the loop has no bound of its own: it is a partial function. \<open>Inl\<close> is a return from
  inside the loop, \<open>Inr\<close> the loop's end.
\<close>

partial_function (option) recv_fin_loop ::
  "nat \<Rightarrow> 'e ymodem_context \<Rightarrow> 'e world
     \<Rightarrow> ((ymodem_error \<times> 'e ymodem_context \<times> 'e world) + ('e ymodem_context \<times> 'e world)) option" where
  "recv_fin_loop retries ctx w =
     (if retries < YMODEM_MAX_ERRORS then
        (case ymodem_receive_byte ctx YMODEM_WAIT_PACKET_TIMEOUT_MS w of
           (Inl e, w1) \<Rightarrow> recv_fin_loop (retries + 1) ctx w1
         | (Inr code, w1) \<Rightarrow>
             let ctx1 = ctx\<lparr>buffer := write_at (buffer ctx) 0 [code]\<rparr> in
             if code = YMODEM_CODE_SOH \<or> code = YMODEM_CODE_STX then
               (case ymodem_receive_packet ctx1 w1 of
                  (ret, seq, data_size, ctx2, w2) \<Rightarrow>
                    if ret \<noteq> YMODEM_ERR_NONE then recv_fin_loop (retries + 1) ctx2 w2
                    else if seq \<noteq> 0 then recv_fin_loop (retries + 1) ctx2 w2
                    else if buffer ctx2 ! 3 = 0 then
                      (let ctx3 = ctx2\<lparr>stage := YMODEM_STAGE_FINISHED\<rparr> in
                       case ymodem_send_byte ctx3 YMODEM_CODE_ACK w2 of
                         (ok, w3) \<Rightarrow>
                           if \<not> ok then Some (Inl (YMODEM_ERR_CODE, ctx3, w3))
                           else Some (Inl (YMODEM_ERR_NONE, ctx3, w3)))
                    else recv_fin_loop retries ctx2 w2)
             else if code = YMODEM_CODE_EOT then
               (case ymodem_send_byte ctx1 YMODEM_CODE_ACK w1 of
                  (ok, w2) \<Rightarrow>
                    if \<not> ok then Some (Inl (YMODEM_ERR_CODE, ctx1, w2))
                    else recv_fin_loop (retries + 1) ctx1 w2)
             else recv_fin_loop (retries + 1) ctx1 w1)
      else Some (Inr (ctx, w)))"

text \<open>The part of \<^verbatim>\<open>_ymodem_do_fin\<close> before that loop: NAK, the second EOT, ACK and C.\<close>

definition recv_fin_second_eot ::
  "'e ymodem_context \<Rightarrow> 'e world \<Rightarrow> ymodem_error \<times> 'e world" where
  "recv_fin_second_eot ctx w =
     (case ymodem_send_byte ctx YMODEM_CODE_NAK w of
        (ok, w1) \<Rightarrow>
          if \<not> ok then (YMODEM_ERR_CODE, w1)
          else
            (case ymodem_receive_byte ctx YMODEM_WAIT_PACKET_TIMEOUT_MS w1 of
               (ret, w2) \<Rightarrow>
                 if ret \<noteq> Inr YMODEM_CODE_EOT then
                   (case ymodem_send_byte ctx YMODEM_CODE_NAK w2 of
                      (ok2, w3) \<Rightarrow>
                        if \<not> ok2 then (YMODEM_ERR_CODE, w3)
                        else
                          (case ymodem_receive_byte ctx YMODEM_WAIT_PACKET_TIMEOUT_MS w3 of
                             (ret2, w4) \<Rightarrow>
                               if ret2 \<noteq> Inr YMODEM_CODE_EOT then (YMODEM_ERR_CODE, w4)
                               else (YMODEM_ERR_NONE, w4)))
                 else (YMODEM_ERR_NONE, w2)))"

definition ymodem_do_fin ::
  "'e ymodem_context \<Rightarrow> 'e world \<Rightarrow> (ymodem_error \<times> 'e ymodem_context \<times> 'e world) option" where
  "ymodem_do_fin ctx w =
     (let ctx0 = ctx\<lparr>stage := YMODEM_STAGE_FINISHING\<rparr> in
      case recv_fin_second_eot ctx0 w of
        (ret, w1) \<Rightarrow>
          if ret \<noteq> YMODEM_ERR_NONE then Some (ret, ctx0, w1)
          else
            (case ymodem_send_byte ctx0 YMODEM_CODE_ACK w1 of
               (ok, w2) \<Rightarrow>
                 if \<not> ok then Some (YMODEM_ERR_CODE, ctx0, w2)
                 else
                   (case ymodem_send_byte ctx0 YMODEM_CODE_C w2 of
                      (ok2, w3) \<Rightarrow>
                        if \<not> ok2 then Some (YMODEM_ERR_CODE, ctx0, w3)
                        else
                          (case recv_fin_loop 0 ctx0 w3 of
                             None \<Rightarrow> None
                           | Some (Inl r) \<Rightarrow> Some r
                           | Some (Inr (ctx1, w4)) \<Rightarrow>
                               if file_handle ctx1 \<noteq> None
                               then Some (YMODEM_ERR_NONE,
                                          ctx1\<lparr>stage := YMODEM_STAGE_FINISHED\<rparr>, w4)
                               else Some (YMODEM_ERR_CODE, ctx1, w4)))))"

subsection \<open>The receiver: ymodem\_receive\_file\<close>

text \<open>
  \<open>file_info_ptr\<close> is the caller's \<^verbatim>\<open>ymodem_file_info_t*\<close>; the third component of the
  result is the struct as the call leaves it.
\<close>

definition ymodem_receive_file ::
  "'e ymodem_context \<Rightarrow> ymodem_file_info option \<Rightarrow> int \<Rightarrow> 'e world
     \<Rightarrow> (ymodem_error \<times> 'e ymodem_context \<times> ymodem_file_info option \<times> 'e world) option" where
  "ymodem_receive_file ctx file_info_ptr handshake_timeout_s w =
     (case file_info_ptr of
        None \<Rightarrow> Some (YMODEM_ERR_CODE, ctx, None, w)
      | Some file_info \<Rightarrow>
          (case ymodem_do_handshake ctx handshake_timeout_s w of
             (ret, ctx1, w1) \<Rightarrow>
               if ret \<noteq> YMODEM_ERR_NONE then Some (ret, ctx1, Some file_info, w1)
               else
                 (case ymodem_parse_file_info ctx1 file_info of
                    (ret, ctx2, fi) \<Rightarrow>
                      if ret \<noteq> YMODEM_ERR_NONE then Some (ret, ctx2, Some fi, w1)
                      else
                        (case call_file_open ctx2 (c_string (fi_filename fi)) True w1 of
                           (h, w2) \<Rightarrow>
                             let ctx3 = ctx2\<lparr>file_handle := h\<rparr> in
                             if file_handle ctx3 = None then Some (YMODEM_ERR_FILE, ctx3, Some fi, w2)
                             else
                               (case ymodem_do_trans ctx3 w2 of
                                  None \<Rightarrow> None
                                | Some (ret, ctx4, w3) \<Rightarrow>
                                    if ret \<noteq> YMODEM_ERR_NONE
                                    then Some (ret, ctx4\<lparr>file_handle := None\<rparr>, Some fi,
                                               call_file_close ctx4 (file_handle ctx4) w3)
                                    else
                                      (case ymodem_do_fin ctx4 w3 of
                                         None \<Rightarrow> None
                                       | Some (ret, ctx5, w4) \<Rightarrow>
                                           Some (ret, ctx5\<lparr>file_handle := None\<rparr>, Some fi,
                                                 call_file_close ctx5 (file_handle ctx5) w4)))))))"

subsection \<open>Observing a run\<close>

text \<open>
  These functions are not part of the program; the properties below are stated with
  them. \<open>receive_replies n ctx t w\<close> is what \<open>n\<close> successive calls of
  \<^verbatim>\<open>ymodem_receive_byte\<close> with timeout \<open>t\<close> return, from the world \<open>w\<close> on.
\<close>

fun receive_replies ::
  "nat \<Rightarrow> 'e ymodem_context \<Rightarrow> nat \<Rightarrow> 'e world \<Rightarrow> (ymodem_error + byte) list" where
  "receive_replies 0 ctx t w = []"
| "receive_replies (Suc n) ctx t w =
     (case ymodem_receive_byte ctx t w of (r, w') \<Rightarrow> r # receive_replies n ctx t w')"


text \<open>What a trace put on the wire: the data given to \<^verbatim>\<open>comm_send\<close>, call by call.\<close>

fun sent_frames :: "event list \<Rightarrow> byte list list" where
  "sent_frames [] = []"
| "sent_frames (CommSend data n # evs) = data # sent_frames evs"
| "sent_frames (ev # evs) = sent_frames evs"

text \<open>
  A trace that grows, from \<open>tr\<close> to \<open>tr'\<close>, by at most \<open>n\<close> one-byte receives with
  timeout \<open>t\<close> and by nothing else.
\<close>

fun is_receive :: "nat \<Rightarrow> event \<Rightarrow> bool" where
  "is_receive t (CommReceive m t' bs) = (m = 1 \<and> t' = t)"
| "is_receive t ev = False"

definition receives_only :: "nat \<Rightarrow> nat \<Rightarrow> event list \<Rightarrow> event list \<Rightarrow> bool" where
  "receives_only n t tr tr' =
     (take (length tr) tr' = tr \<and> length tr' \<le> length tr + n
      \<and> list_all (is_receive t) (drop (length tr) tr'))"

subsection \<open>A scripted environment\<close>

text \<open>
  A transport and a file system that follow a script, to run the model on concrete
  inputs: each \<^verbatim>\<open>comm_receive\<close> call delivers the next entry of \<open>rx_script\<close> (nothing
  when the script is over, which is a timeout), each \<^verbatim>\<open>comm_send\<close> call accepts the
  number of bytes the next entry of \<open>tx_script\<close> allows (everything when the script is
  over). The file to send is \<open>file_data\<close>; what the receiver writes is appended to
  \<open>written\<close>.
\<close>

record sim_env =
  rx_script :: "byte list list"
  tx_script :: "nat list"
  open_result :: "handle option"
  file_data :: "byte list"
  file_total :: int
  written :: "byte list"

definition sim_comm_send :: "byte list \<Rightarrow> sim_env \<Rightarrow> nat \<times> sim_env" where
  "sim_comm_send data e =
     (case tx_script e of
        [] \<Rightarrow> (length data, e)
      | k # rest \<Rightarrow> (min k (length data), e\<lparr>tx_script := rest\<rparr>))"

definition sim_comm_receive :: "nat \<Rightarrow> nat \<Rightarrow> sim_env \<Rightarrow> byte list \<times> sim_env" where
  "sim_comm_receive max_length timeout_ms e =
     (case rx_script e of
        [] \<Rightarrow> ([], e)
      | bs # rest \<Rightarrow> (take max_length bs, e\<lparr>rx_script := rest\<rparr>))"

definition sim_file_open :: "byte list \<Rightarrow> bool \<Rightarrow> sim_env \<Rightarrow> handle option \<times> sim_env" where
  "sim_file_open name writing e = (open_result e, e)"

definition sim_file_read :: "handle option \<Rightarrow> nat \<Rightarrow> sim_env \<Rightarrow> byte list \<times> sim_env" where
  "sim_file_read h n e = (take n (file_data e), e\<lparr>file_data := drop n (file_data e)\<rparr>)"

definition sim_file_write :: "handle option \<Rightarrow> byte list \<Rightarrow> sim_env \<Rightarrow> nat \<times> sim_env" where
  "sim_file_write h data e = (length data, e\<lparr>written := written e @ data\<rparr>)"

definition sim_file_close :: "handle option \<Rightarrow> sim_env \<Rightarrow> sim_env" where
  "sim_file_close h e = e"

definition sim_file_size :: "handle option \<Rightarrow> sim_env \<Rightarrow> int \<times> sim_env" where
  "sim_file_size h e = (file_total e, e)"

definition sim_callbacks :: "sim_env ymodem_callbacks" where
  "sim_callbacks =
     \<lparr>file_open = Some sim_file_open, file_read = Some sim_file_read,
      file_write = Some sim_file_write, file_close = Some sim_file_close,
      file_size_fn = Some sim_file_size, comm_send = Some sim_comm_send,
      comm_receive = Some sim_comm_receive\<rparr>"

definition sim_env0 :: sim_env where
  "sim_env0 =
     \<lparr>rx_script = [], tx_script = [], open_result = Some 1, file_data = [], file_total = 0,
      written = []\<rparr>"

definition sim_world :: "sim_env \<Rightarrow> sim_env world" where
  "sim_world e = \<lparr>env = e, trace = []\<rparr>"

text \<open>The context as \<^verbatim>\<open>ymodem_send_init\<close> leaves it, on two zeroed 1029-byte buffers.\<close>

definition sim_ctx :: "sim_env ymodem_context" where
  "sim_ctx =
     \<lparr>callbacks = sim_callbacks, stage = YMODEM_STAGE_NONE,
      buffer = replicate 1029 0, buffer_size = 1029,
      send_buffer = replicate 1029 0, send_buffer_size = 1029,
      file_handle = None, file_size = 0, filename = replicate 256 0,
      packet_seq = 0, error_count = 0\<rparr>"

text \<open>
  The frame of a data packet with sequence number \<open>seq\<close> that the sender builds from
  the data region of the scripted context's buffer.
\<close>

definition sim_frame :: "byte \<Rightarrow> byte \<Rightarrow> nat \<Rightarrow> byte list" where
  "sim_frame code seq n =
     [code, seq, seq XOR 0xFF] @ take n (drop 3 (buffer sim_ctx))
       @ [ucast (drop_bit 8 (ymodem_calc_crc16 (take n (drop 3 (buffer sim_ctx))))),
          ucast (ymodem_calc_crc16 (take n (drop 3 (buffer sim_ctx))))]"



section \<open>Properties\<close>

subsection \<open>Bytes and arrays\<close>

lemma byte_mask: "(0xFF::byte) = mask 8"
  by (simp add: mask_eq_exp_minus_1)

lemma not_byte: "NOT (x::byte) = x XOR 0xFF"
  unfolding byte_mask by (rule bit_eqI) (auto simp add: bit_simps)

lemma word16_mask: "(0xFF::16 word) = mask 8"
  by (simp add: mask_eq_exp_minus_1)

lemma hi_byte: "(ucast (drop_bit 8 (c::16 word) AND 0xFF) :: byte) = ucast (drop_bit 8 c)"
  unfolding word16_mask by (rule bit_eqI) (auto simp add: bit_simps)

lemma lo_byte: "(ucast ((c::16 word) AND 0xFF) :: byte) = ucast c"
  unfolding word16_mask by (rule bit_eqI) (auto simp add: bit_simps)

lemma write_at_length:
  "off + length bs \<le> length buf \<Longrightarrow> length (write_at buf off bs) = length buf"
  by (simp add: write_at_def)

lemma write_at_app:
  "length pre = off \<Longrightarrow> write_at (pre @ rest) off bs = pre @ bs @ drop (length bs) rest"
  by (simp add: write_at_def)

lemma write_at_frame:
  "write_at (write_at (write_at (write_at (write_at (write_at sb 0 [a]) 1 [b]) 2 [c]) 3 payload)
            (3 + length payload) [h]) (3 + length payload + 1) [l]
         = [a, b, c] @ payload @ [h, l] @ drop (3 + length payload + 2) sb"
proof -
  have 0: "write_at sb 0 [a] = [a] @ drop 1 sb"
    using write_at_app [of "[]" 0 sb "[a]"] by simp
  have 1: "write_at ([a] @ drop 1 sb) 1 [b] = [a, b] @ drop 2 sb"
    using write_at_app [of "[a]" 1 "drop 1 sb" "[b]"] by (simp add: eval_nat_numeral)
  have 2: "write_at ([a, b] @ drop 2 sb) 2 [c] = [a, b, c] @ drop 3 sb"
    using write_at_app [of "[a, b]" 2 "drop 2 sb" "[c]"] by (simp add: eval_nat_numeral)
  have 3: "write_at ([a, b, c] @ drop 3 sb) 3 payload
             = ([a, b, c] @ payload) @ drop (3 + length payload) sb"
    using write_at_app [of "[a, b, c]" 3 "drop 3 sb" payload]
    by (simp add: eval_nat_numeral add.commute)
  have 4: "write_at (([a, b, c] @ payload) @ drop (3 + length payload) sb) (3 + length payload) [h]
             = ([a, b, c] @ payload @ [h]) @ drop (3 + length payload + 1) sb"
    using write_at_app [of "[a, b, c] @ payload" "3 + length payload"
        "drop (3 + length payload) sb" "[h]"]
    by (simp add: eval_nat_numeral add.commute)
  have 5: "write_at (([a, b, c] @ payload @ [h]) @ drop (3 + length payload + 1) sb)
              (3 + length payload + 1) [l]
             = [a, b, c] @ payload @ [h, l] @ drop (3 + length payload + 2) sb"
    using write_at_app [of "[a, b, c] @ payload @ [h]" "3 + length payload + 1"
        "drop (3 + length payload + 1) sb" "[l]"]
    by (simp add: eval_nat_numeral add.commute)
  show ?thesis
    by (simp only: 0 1 2 3 4 5)
qed

subsection \<open>The packet builder\<close>

text \<open>
  When the size checks pass, the frame is header, sequence number, its complement, the
  payload and the CRC, high byte first; it is handed to the transport in one call, and
  the result depends only on whether the transport reports zero bytes.
\<close>

lemma send_packet_frame:
  fixes ctx :: "'e ymodem_context"
  assumes c1: "\<not> (code = YMODEM_CODE_SOH \<and> n \<noteq> YMODEM_SOH_DATA_SIZE)"
    and c2: "\<not> (code = YMODEM_CODE_STX \<and> n \<noteq> YMODEM_STX_DATA_SIZE)"
    and c3: "\<not> send_buffer_size ctx < 1 + 1 + 1 + n + 2"
    and n: "n \<le> length data"
    and cb: "comm_send (callbacks ctx) = Some f"
    and fr: "frame = [code, seq, seq XOR 0xFF] @ take n data
                @ [ucast (drop_bit 8 (ymodem_calc_crc16 (take n data))),
                   ucast (ymodem_calc_crc16 (take n data))]"
  shows "ymodem_send_packet ctx code seq data n w =
     (if fst (f frame (env w)) = 0 then YMODEM_ERR_CODE else YMODEM_ERR_NONE,
      ctx\<lparr>send_buffer := frame @ drop (3 + n + 2) (send_buffer ctx)\<rparr>,
      emit (CommSend frame (fst (f frame (env w)))) (snd (f frame (env w))) w)"
proof -
  define payload where "payload = take n data"
  have l: "length payload = n"
    using n by (simp add: payload_def)
  have fr2: "frame = [code, seq, seq XOR 0xFF] @ payload
                @ [ucast (drop_bit 8 (ymodem_calc_crc16 payload)), ucast (ymodem_calc_crc16 payload)]"
    by (simp add: fr payload_def)
  have d3: "take n (drop 3 (write_at (write_at (write_at (write_at
              (send_buffer ctx) 0 [code]) 1 [seq]) 2 [c]) 3 payload)) = payload" for c
    using l by (simp add: write_at_def)
  have tk: "take (1 + 1 + 1 + n + 2) (frame @ rest) = frame" for rest
    using l by (simp add: fr2)
  have fr': "[code, seq, seq XOR 0xFF] @ payload
                @ [ucast (drop_bit 8 (ymodem_calc_crc16 payload)), ucast (ymodem_calc_crc16 payload)]
                @ rest = frame @ rest" for rest
    by (simp add: fr2)
  have wf: "write_at (write_at (write_at (write_at (write_at (write_at sb 0 [a]) 1 [b]) 2 [c]) 3 payload)
            (3 + n) [h]) (3 + n + 1) [lo]
         = [a, b, c] @ payload @ [h, lo] @ drop (3 + n + 2) sb" for sb a b c h lo
    using write_at_frame [of sb a b c payload h lo] by (simp only: l)
  show ?thesis
    unfolding ymodem_send_packet_def Let_def payload_def [symmetric]
    apply (simp only: c1 c2 c3 if_False d3)
    apply (simp only: wf hi_byte lo_byte not_byte fr' tk)
    apply (auto simp add: ymodem_send_bytes_def cb split: prod.splits)
    done
qed



subsection \<open>Sequence numbers and control codes\<close>




lemma code_distinct:
  "YMODEM_CODE_SOH \<noteq> YMODEM_CODE_STX" "YMODEM_CODE_SOH \<noteq> YMODEM_CODE_EOT"
  "YMODEM_CODE_SOH \<noteq> YMODEM_CODE_ACK" "YMODEM_CODE_SOH \<noteq> YMODEM_CODE_NAK"
  "YMODEM_CODE_SOH \<noteq> YMODEM_CODE_CAN" "YMODEM_CODE_SOH \<noteq> YMODEM_CODE_C"
  "YMODEM_CODE_STX \<noteq> YMODEM_CODE_SOH" "YMODEM_CODE_STX \<noteq> YMODEM_CODE_EOT"
  "YMODEM_CODE_STX \<noteq> YMODEM_CODE_ACK" "YMODEM_CODE_STX \<noteq> YMODEM_CODE_NAK"
  "YMODEM_CODE_STX \<noteq> YMODEM_CODE_CAN" "YMODEM_CODE_STX \<noteq> YMODEM_CODE_C"
  "YMODEM_CODE_EOT \<noteq> YMODEM_CODE_SOH" "YMODEM_CODE_EOT \<noteq> YMODEM_CODE_STX"
  "YMODEM_CODE_EOT \<noteq> YMODEM_CODE_ACK" "YMODEM_CODE_EOT \<noteq> YMODEM_CODE_NAK"
  "YMODEM_CODE_EOT \<noteq> YMODEM_CODE_CAN" "YMODEM_CODE_EOT \<noteq> YMODEM_CODE_C"
  "YMODEM_CODE_ACK \<noteq> YMODEM_CODE_SOH" "YMODEM_CODE_ACK \<noteq> YMODEM_CODE_STX"
  "YMODEM_CODE_ACK \<noteq> YMODEM_CODE_EOT" "YMODEM_CODE_ACK \<noteq> YMODEM_CODE_NAK"
  "YMODEM_CODE_ACK \<noteq> YMODEM_CODE_CAN" "YMODEM_CODE_ACK \<noteq> YMODEM_CODE_C"
  "YMODEM_CODE_NAK \<noteq> YMODEM_CODE_SOH" "YMODEM_CODE_NAK \<noteq> YMODEM_CODE_STX"
  "YMODEM_CODE_NAK \<noteq> YMODEM_CODE_EOT" "YMODEM_CODE_NAK \<noteq> YMODEM_CODE_ACK"
  "YMODEM_CODE_NAK \<noteq> YMODEM_CODE_CAN" "YMODEM_CODE_NAK \<noteq> YMODEM_CODE_C"
  "YMODEM_CODE_CAN \<noteq> YMODEM_CODE_SOH" "YMODEM_CODE_CAN \<noteq> YMODEM_CODE_STX"
  "YMODEM_CODE_CAN \<noteq> YMODEM_CODE_EOT" "YMODEM_CODE_CAN \<noteq> YMODEM_CODE_ACK"
  "YMODEM_CODE_CAN \<noteq> YMODEM_CODE_NAK" "YMODEM_CODE_CAN \<noteq> YMODEM_CODE_C"
  "YMODEM_CODE_C \<noteq> YMODEM_CODE_SOH" "YMODEM_CODE_C \<noteq> YMODEM_CODE_STX"
  "YMODEM_CODE_C \<noteq> YMODEM_CODE_EOT" "YMODEM_CODE_C \<noteq> YMODEM_CODE_ACK"
  "YMODEM_CODE_C \<noteq> YMODEM_CODE_NAK" "YMODEM_CODE_C \<noteq> YMODEM_CODE_CAN"
  by (simp_all add: ymodem_code_defs)

subsection \<open>What the adapter does to the trace\<close>

lemma receive_byte_trace:
  assumes "ymodem_receive_byte ctx t w = (Inr b, w')"
  shows "\<exists>bs. trace w' = trace w @ [CommReceive 1 t (b # bs)]"
  using assms
  by (auto simp add: ymodem_receive_byte_def ymodem_receive_bytes_def emit_def
      split: option.splits prod.splits list.splits)


subsection \<open>The scripted environment, one call at a time\<close>

lemma sim_ctx_fields:
  "callbacks sim_ctx = sim_callbacks" "send_buffer_size sim_ctx = 1029"
  "buffer_size sim_ctx = 1029" "file_handle sim_ctx = None" "packet_seq sim_ctx = 0"
  "stage sim_ctx = YMODEM_STAGE_NONE" "error_count sim_ctx = 0" "file_size sim_ctx = 0"
  by (simp_all add: sim_ctx_def)

lemma sim_ctx_lengths:
  "length (send_buffer sim_ctx) = 1029" "length (buffer sim_ctx) = 1029"
  "length (filename sim_ctx) = 256"
  by (simp_all add: sim_ctx_def)

lemma sim_callbacks_fields:
  "comm_send sim_callbacks = Some sim_comm_send"
  "comm_receive sim_callbacks = Some sim_comm_receive"
  "file_open sim_callbacks = Some sim_file_open"
  "file_read sim_callbacks = Some sim_file_read"
  "file_write sim_callbacks = Some sim_file_write"
  "file_close sim_callbacks = Some sim_file_close"
  "file_size_fn sim_callbacks = Some sim_file_size"
  by (simp_all add: sim_callbacks_def)

lemma sim_receive_byte:
  assumes "callbacks ctx = sim_callbacks" "rx_script (env w) = [b] # rest"
  shows "ymodem_receive_byte ctx t w =
           (Inr b, \<lparr>env = (env w)\<lparr>rx_script := rest\<rparr>,
                    trace = trace w @ [CommReceive 1 t [b]]\<rparr>)"
  using assms
  by (simp add: ymodem_receive_byte_def ymodem_receive_bytes_def sim_callbacks_fields
      sim_comm_receive_def emit_def)

lemma sim_receive_timeout:
  assumes "callbacks ctx = sim_callbacks" "rx_script (env w) = []"
  shows "ymodem_receive_byte ctx t w =
           (Inl YMODEM_ERR_TMO, \<lparr>env = env w, trace = trace w @ [CommReceive 1 t []]\<rparr>)"
  using assms
  by (simp add: ymodem_receive_byte_def ymodem_receive_bytes_def sim_callbacks_fields
      sim_comm_receive_def emit_def)

lemma sim_send_byte:
  assumes "callbacks ctx = sim_callbacks" "tx_script (env w) = []"
  shows "ymodem_send_byte ctx b w =
           (True, \<lparr>env = env w, trace = trace w @ [CommSend [b] 1]\<rparr>)"
  using assms
  by (simp add: ymodem_send_byte_def ymodem_send_bytes_def sim_callbacks_fields
      sim_comm_send_def emit_def)

lemma sim_send_packet:
  assumes cb: "callbacks ctx = sim_callbacks" and tx: "tx_script (env w) = []"
    and c1: "\<not> (code = YMODEM_CODE_SOH \<and> n \<noteq> YMODEM_SOH_DATA_SIZE)"
    and c2: "\<not> (code = YMODEM_CODE_STX \<and> n \<noteq> YMODEM_STX_DATA_SIZE)"
    and c3: "\<not> send_buffer_size ctx < 1 + 1 + 1 + n + 2"
    and n: "n \<le> length data"
    and fr: "frame = [code, seq, seq XOR 0xFF] @ take n data
                @ [ucast (drop_bit 8 (ymodem_calc_crc16 (take n data))),
                   ucast (ymodem_calc_crc16 (take n data))]"
  shows "ymodem_send_packet ctx code seq data n w =
     (YMODEM_ERR_NONE,
      ctx\<lparr>send_buffer := frame @ drop (3 + n + 2) (send_buffer ctx)\<rparr>,
      \<lparr>env = env w, trace = trace w @ [CommSend frame (n + 5)]\<rparr>)"
proof -
  have cs: "comm_send (callbacks ctx) = Some sim_comm_send"
    by (simp add: cb sim_callbacks_fields)
  have l: "length frame = n + 5"
    using n by (simp add: fr)
  have s: "sim_comm_send frame (env w) = (n + 5, env w)"
    by (simp add: sim_comm_send_def tx l)
  show ?thesis
    by (simp add: send_packet_frame [OF c1 c2 c3 n cs fr] s emit_def)
qed

lemma sim_send_data_packet:
  fixes ctx :: "sim_env ymodem_context"
  assumes "callbacks ctx = sim_callbacks" "tx_script (env w) = []"
    and "send_buffer_size ctx = 1029" "buffer ctx = buffer sim_ctx"
    and "(code = YMODEM_CODE_SOH \<and> n = 128) \<or> (code = YMODEM_CODE_STX \<and> n = 1024)"
  shows "ymodem_send_packet ctx code seq (drop 3 (buffer ctx)) n w =
     (YMODEM_ERR_NONE,
      ctx\<lparr>send_buffer := sim_frame code seq n @ drop (3 + n + 2) (send_buffer ctx)\<rparr>,
      \<lparr>env = env w, trace = trace w @ [CommSend (sim_frame code seq n) (n + 5)]\<rparr>)"
  using assms code_distinct
  by (intro sim_send_packet) (auto simp add: ymodem_size_defs sim_ctx_lengths sim_frame_def)

subsection \<open>The sender's data loop: replies to a data packet\<close>



lemma sim_data_packet_reply:
  fixes ctx :: "sim_env ymodem_context"
  assumes ctx: "ctx = sim_ctx\<lparr>stage := YMODEM_STAGE_TRANSMITTING, packet_seq := s\<rparr>"
    and w: "w = sim_world (sim_env0\<lparr>rx_script := [[b]]\<rparr>)"
    and code: "(code = YMODEM_CODE_SOH \<and> n = 128) \<or> (code = YMODEM_CODE_STX \<and> n = 1024)"
  shows "ymodem_send_packet ctx code (packet_seq ctx) (drop 3 (buffer ctx)) n w =
           (YMODEM_ERR_NONE,
            ctx\<lparr>send_buffer := sim_frame code s n @ drop (3 + n + 2) (send_buffer ctx)\<rparr>,
            \<lparr>env = env w, trace = [CommSend (sim_frame code s n) (n + 5)]\<rparr>)"
    and "ymodem_receive_byte
           (ctx\<lparr>send_buffer := sim_frame code s n @ drop (3 + n + 2) (send_buffer ctx)\<rparr>)
           YMODEM_WAIT_PACKET_TIMEOUT_MS
           \<lparr>env = env w, trace = [CommSend (sim_frame code s n) (n + 5)]\<rparr> =
           (Inr b,
            \<lparr>env = (env w)\<lparr>rx_script := []\<rparr>,
             trace = [CommSend (sim_frame code s n) (n + 5),
                      CommReceive 1 YMODEM_WAIT_PACKET_TIMEOUT_MS [b]]\<rparr>)"
proof -
  have "ymodem_send_packet ctx code s (drop 3 (buffer ctx)) n w =
           (YMODEM_ERR_NONE,
            ctx\<lparr>send_buffer := sim_frame code s n @ drop (3 + n + 2) (send_buffer ctx)\<rparr>,
            \<lparr>env = env w, trace = trace w @ [CommSend (sim_frame code s n) (n + 5)]\<rparr>)"
    using code
    by (intro sim_send_data_packet)
      (simp_all add: ctx w sim_ctx_fields sim_world_def sim_env0_def)
  then show "ymodem_send_packet ctx code (packet_seq ctx) (drop 3 (buffer ctx)) n w =
           (YMODEM_ERR_NONE,
            ctx\<lparr>send_buffer := sim_frame code s n @ drop (3 + n + 2) (send_buffer ctx)\<rparr>,
            \<lparr>env = env w, trace = [CommSend (sim_frame code s n) (n + 5)]\<rparr>)"
    by (simp add: ctx w sim_world_def)
  show "ymodem_receive_byte
           (ctx\<lparr>send_buffer := sim_frame code s n @ drop (3 + n + 2) (send_buffer ctx)\<rparr>)
           YMODEM_WAIT_PACKET_TIMEOUT_MS
           \<lparr>env = env w, trace = [CommSend (sim_frame code s n) (n + 5)]\<rparr> =
           (Inr b,
            \<lparr>env = (env w)\<lparr>rx_script := []\<rparr>,
             trace = [CommSend (sim_frame code s n) (n + 5),
                      CommReceive 1 YMODEM_WAIT_PACKET_TIMEOUT_MS [b]]\<rparr>)"
    using sim_receive_byte [of "ctx\<lparr>send_buffer := sim_frame code s n @ drop (3 + n + 2) (send_buffer ctx)\<rparr>"
        "\<lparr>env = env w, trace = [CommSend (sim_frame code s n) (n + 5)]\<rparr>" b "[]"
        YMODEM_WAIT_PACKET_TIMEOUT_MS]
    by (simp add: ctx w sim_ctx_fields sim_world_def sim_env0_def)
qed



subsection \<open>The scripted environment as rewrite rules\<close>

lemma sim_receive_byte_eval:
  assumes "callbacks ctx = sim_callbacks"
  shows "ymodem_receive_byte ctx t w =
           (case rx_script (env w) of
              [] \<Rightarrow> (Inl YMODEM_ERR_TMO, \<lparr>env = env w, trace = trace w @ [CommReceive 1 t []]\<rparr>)
            | bs # rest \<Rightarrow>
                (case bs of
                   [] \<Rightarrow> (Inl YMODEM_ERR_TMO,
                          \<lparr>env = (env w)\<lparr>rx_script := rest\<rparr>,
                           trace = trace w @ [CommReceive 1 t []]\<rparr>)
                 | b # _ \<Rightarrow> (Inr b,
                             \<lparr>env = (env w)\<lparr>rx_script := rest\<rparr>,
                              trace = trace w @ [CommReceive 1 t [b]]\<rparr>)))"
  using assms
  by (simp add: ymodem_receive_byte_def ymodem_receive_bytes_def sim_callbacks_fields
      sim_comm_receive_def emit_def split: list.splits)

lemma sim_send_byte_eval:
  assumes "callbacks ctx = sim_callbacks"
  shows "ymodem_send_byte ctx b w =
           (case tx_script (env w) of
              [] \<Rightarrow> (True, \<lparr>env = env w, trace = trace w @ [CommSend [b] 1]\<rparr>)
            | k # rest \<Rightarrow>
                (min k 1 = 1,
                 \<lparr>env = (env w)\<lparr>tx_script := rest\<rparr>,
                  trace = trace w @ [CommSend [b] (min k 1)]\<rparr>))"
  using assms
  by (simp add: ymodem_send_byte_def ymodem_send_bytes_def sim_callbacks_fields
      sim_comm_send_def emit_def split: list.splits)

subsection \<open>Cancellation\<close>

lemma send_trans_retry_can:
  fixes ctx :: "'e ymodem_context"
  assumes r: "retries < YMODEM_MAX_ERRORS"
    and sp: "ymodem_send_packet ctx packet_type (packet_seq ctx) (drop 3 (buffer ctx)) read_size w
               = (YMODEM_ERR_NONE, ctx1, w1)"
    and rb: "ymodem_receive_byte ctx1 YMODEM_WAIT_PACKET_TIMEOUT_MS w1 = (Inr YMODEM_CODE_CAN, w2)"
  shows "send_trans_retry retries ctx packet_type read_size w = (Inl YMODEM_ERR_CAN, ctx1, w2)"
  using r by (subst send_trans_retry.simps) (simp add: sp rb code_distinct)

text \<open>
  C6, as the code has it. In the data loop, whichever attempt of whichever packet it is,
  a CAN that answers the packet makes the sender return \<open>YMODEM_ERR_CAN\<close> at once: the
  world it returns is the one the receive left, whose trace ends with that receive, so
  nothing was sent after the CAN. (The receive points of the handshake and of the finish
  have no test for CAN.)
\<close>

theorem C6_data_loop_can_cancels:
  fixes ctx :: "'e ymodem_context"
  assumes r: "retries < YMODEM_MAX_ERRORS"
    and sp: "ymodem_send_packet ctx packet_type (packet_seq ctx) (drop 3 (buffer ctx)) read_size w
               = (YMODEM_ERR_NONE, ctx1, w1)"
    and rb: "ymodem_receive_byte ctx1 YMODEM_WAIT_PACKET_TIMEOUT_MS w1 = (Inr YMODEM_CODE_CAN, w2)"
  shows "send_trans_retry retries ctx packet_type read_size w = (Inl YMODEM_ERR_CAN, ctx1, w2)
    \<and> (retries = 0 \<longrightarrow>
         send_trans_packet ctx packet_type read_size w = Inl (YMODEM_ERR_CAN, ctx1, w2))
    \<and> (\<exists>bs. trace w2 = trace w1
           @ [CommReceive 1 YMODEM_WAIT_PACKET_TIMEOUT_MS (YMODEM_CODE_CAN # bs)])"
  using send_trans_retry_can [OF r sp rb] receive_byte_trace [OF rb]
  by (auto simp add: send_trans_packet_def)


text \<open>
  The first data packet of a transfer, answered by CAN: the sender returns
  \<open>YMODEM_ERR_CAN\<close>, and the trace holds the packet and the receive, nothing after.
\<close>

theorem C6_data_loop_can_cancels_witness:
  "map_sum (\<lambda>(e, c, w'). (e, sent_frames (trace w'), length (trace w'))) fst
     (send_trans_packet (sim_ctx\<lparr>stage := YMODEM_STAGE_TRANSMITTING, packet_seq := 1\<rparr>)
        YMODEM_CODE_STX 1024 (sim_world (sim_env0\<lparr>rx_script := [[YMODEM_CODE_CAN]]\<rparr>)))
   = Inl (YMODEM_ERR_CAN, [sim_frame YMODEM_CODE_STX 1 1024], 2)"
proof -
  have r: "0 < YMODEM_MAX_ERRORS"
    by (simp add: YMODEM_MAX_ERRORS_def)
  show ?thesis
    using C6_data_loop_can_cancels [OF r
        sim_data_packet_reply [where s = 1 and b = YMODEM_CODE_CAN,
          OF refl refl disjI2 [OF conjI [OF refl refl]]]]
    by simp
qed

text \<open>
  Against C6 as the claim has it (every receive of the sender): a CAN that arrives while
  the sender waits for the first \<^verbatim>\<open>C\<close> of the handshake is passed over as any other byte.
  With a handshake timeout of one second the sender returns \<open>YMODEM_ERR_TMO\<close>, not
  \<open>YMODEM_ERR_CAN\<close>.
\<close>

theorem C6_counterexample:
  "fst (ymodem_do_send_handshake sim_ctx 1 (sim_world (sim_env0\<lparr>rx_script := [[YMODEM_CODE_CAN]]\<rparr>)))
     = YMODEM_ERR_TMO"
proof -
  have "send_handshake_wait_c (nat 1) 0 (sim_ctx\<lparr>stage := YMODEM_STAGE_ESTABLISHING\<rparr>)
          (sim_world (sim_env0\<lparr>rx_script := [[YMODEM_CODE_CAN]]\<rparr>))
        = (1, \<lparr>env = sim_env0\<lparr>rx_script := []\<rparr>,
               trace = [CommReceive 1 YMODEM_HANDSHAKE_INTERVAL_MS [YMODEM_CODE_CAN]]\<rparr>)"
    by (simp add: sim_receive_byte_eval sim_ctx_fields sim_world_def sim_env0_def code_distinct)
  then show ?thesis
    by (simp add: ymodem_do_send_handshake_def Let_def)
qed

subsection \<open>The end of the sender's finish sequence\<close>

lemma send_fin_null_packet_sent:
  fixes ctx :: "'e ymodem_context"
  assumes sp: "ymodem_send_packet
                 (ctx\<lparr>buffer := write_at (buffer ctx) 3 (replicate YMODEM_SOH_DATA_SIZE 0)\<rparr>)
                 YMODEM_CODE_SOH 0
                 (drop 3 (write_at (buffer ctx) 3 (replicate YMODEM_SOH_DATA_SIZE 0)))
                 YMODEM_SOH_DATA_SIZE w
               = (YMODEM_ERR_NONE, ctx1, w1)"
  shows "send_fin_null_packet ctx w =
           (YMODEM_ERR_NONE, ctx1\<lparr>stage := YMODEM_STAGE_FINISHED\<rparr>,
            snd (ymodem_receive_byte ctx1 YMODEM_WAIT_PACKET_TIMEOUT_MS w1))"
  using sp by (simp add: send_fin_null_packet_def Let_def split: prod.splits)

text \<open>
  When the three loops of \<^verbatim>\<open>_ymodem_do_send_fin\<close> are left in the ordinary way, the
  function's result is that of its last part.
\<close>

lemma do_send_fin_last_part:
  fixes ctx :: "'e ymodem_context"
  assumes "send_fin_eot1 0 (ctx\<lparr>stage := YMODEM_STAGE_FINISHING\<rparr>) w = (Inr r1, w1)"
    and "r1 < YMODEM_MAX_ERRORS"
    and "send_fin_eot2 0 (ctx\<lparr>stage := YMODEM_STAGE_FINISHING\<rparr>) w1 = (Inr r2, w2)"
    and "r2 < YMODEM_MAX_ERRORS"
    and "send_fin_wait_c 0 (ctx\<lparr>stage := YMODEM_STAGE_FINISHING\<rparr>) w2 = Some (got_c, w3)"
  shows "ymodem_do_send_fin ctx w =
           Some (send_fin_null_packet (ctx\<lparr>stage := YMODEM_STAGE_FINISHING\<rparr>) w3)"
  using assms by (simp add: ymodem_do_send_fin_def)

text \<open>
  C7. Once the batch-terminator packet (SOH, sequence number 0, 128 zero bytes) has been
  handed to the transport, the end of \<^verbatim>\<open>_ymodem_do_send_fin\<close> returns
  \<open>YMODEM_ERR_NONE\<close> with the stage \<open>YMODEM_STAGE_FINISHED\<close>, whatever the one receive
  that follows returns: an ACK, a timeout or any other byte.
\<close>

theorem C7_final_ack_optional:
  fixes ctx :: "'e ymodem_context"
  assumes sp: "ymodem_send_packet
                 (ctx\<lparr>buffer := write_at (buffer ctx) 3 (replicate YMODEM_SOH_DATA_SIZE 0)\<rparr>)
                 YMODEM_CODE_SOH 0
                 (drop 3 (write_at (buffer ctx) 3 (replicate YMODEM_SOH_DATA_SIZE 0)))
                 YMODEM_SOH_DATA_SIZE w
               = (YMODEM_ERR_NONE, ctx1, w1)"
    and rb: "ymodem_receive_byte ctx1 YMODEM_WAIT_PACKET_TIMEOUT_MS w1 = (reply, w2)"
  shows "send_fin_null_packet ctx w =
           (YMODEM_ERR_NONE, ctx1\<lparr>stage := YMODEM_STAGE_FINISHED\<rparr>, w2)"
  using send_fin_null_packet_sent [OF sp] rb by simp

text \<open>
  The final ACK does not arrive (the script is empty, so the receive times out): the
  result is still \<open>YMODEM_ERR_NONE\<close> and the stage \<open>YMODEM_STAGE_FINISHED\<close>. The trace
  holds the batch-terminator packet and the receive.
\<close>

theorem C7_final_ack_optional_witness:
  "(\<lambda>(e, c, w'). (e, stage c, map length (sent_frames (trace w')), length (trace w')))
     (send_fin_null_packet (sim_ctx\<lparr>stage := YMODEM_STAGE_FINISHING\<rparr>) (sim_world sim_env0))
   = (YMODEM_ERR_NONE, YMODEM_STAGE_FINISHED, [133], 2)"
proof -
  let ?ctx = "sim_ctx\<lparr>stage := YMODEM_STAGE_FINISHING\<rparr>"
  let ?w = "sim_world sim_env0"
  define buf0 where "buf0 = write_at (buffer ?ctx) 3 (replicate YMODEM_SOH_DATA_SIZE 0)"
  define frame where
    "frame = [YMODEM_CODE_SOH, 0, 0 XOR 0xFF] @ take YMODEM_SOH_DATA_SIZE (drop 3 buf0)
       @ [ucast (drop_bit 8 (ymodem_calc_crc16 (take YMODEM_SOH_DATA_SIZE (drop 3 buf0)))),
          ucast (ymodem_calc_crc16 (take YMODEM_SOH_DATA_SIZE (drop 3 buf0)))]"
  have lb: "length buf0 = 1029"
    by (simp add: buf0_def write_at_length sim_ctx_lengths ymodem_size_defs)
  have lf: "length frame = 133"
    by (simp add: frame_def lb ymodem_size_defs)
  have sp: "ymodem_send_packet (?ctx\<lparr>buffer := buf0\<rparr>) YMODEM_CODE_SOH 0 (drop 3 buf0)
              YMODEM_SOH_DATA_SIZE ?w
            = (YMODEM_ERR_NONE,
               ?ctx\<lparr>buffer := buf0,
                     send_buffer := frame @ drop (3 + YMODEM_SOH_DATA_SIZE + 2) (send_buffer ?ctx)\<rparr>,
               \<lparr>env = env ?w, trace = trace ?w @ [CommSend frame (YMODEM_SOH_DATA_SIZE + 5)]\<rparr>)"
    using sim_send_packet [of "?ctx\<lparr>buffer := buf0\<rparr>" ?w YMODEM_CODE_SOH YMODEM_SOH_DATA_SIZE
        "drop 3 buf0" frame 0]
    by (simp add: sim_ctx_fields sim_world_def sim_env0_def lb frame_def ymodem_size_defs
        code_distinct)
  have rb: "ymodem_receive_byte
              (?ctx\<lparr>buffer := buf0,
                     send_buffer := frame @ drop (3 + YMODEM_SOH_DATA_SIZE + 2) (send_buffer ?ctx)\<rparr>)
              YMODEM_WAIT_PACKET_TIMEOUT_MS
              \<lparr>env = env ?w, trace = trace ?w @ [CommSend frame (YMODEM_SOH_DATA_SIZE + 5)]\<rparr>
            = (Inl YMODEM_ERR_TMO,
               \<lparr>env = sim_env0,
                trace = [CommSend frame (YMODEM_SOH_DATA_SIZE + 5),
                         CommReceive 1 YMODEM_WAIT_PACKET_TIMEOUT_MS []]\<rparr>)"
    by (simp add: sim_receive_byte_eval sim_ctx_fields sim_world_def sim_env0_def)
  show ?thesis
    using C7_final_ack_optional [OF sp [unfolded buf0_def [THEN arg_cong, of "\<lambda>x. x"]] rb [unfolded buf0_def]] lf
    by (simp add: buf0_def [symmetric])
qed

subsection \<open>A transport that accepts part of a packet\<close>

text \<open>
  C8 at a transport that accepts 5 of the 133 bytes of an SOH packet:
  \<^verbatim>\<open>ymodem_send_bytes\<close> returns the count 5, \<^verbatim>\<open>_ymodem_send_packet\<close> only tests it
  against zero, and the packet counts as sent.
\<close>

theorem C8_partial_send_counts_as_sent:
  "(\<lambda>(e, c, w'). (e, map (\<lambda>ev. case ev of CommSend d k \<Rightarrow> (length d, k) | _ \<Rightarrow> (0, 0)) (trace w')))
     (ymodem_send_packet sim_ctx YMODEM_CODE_SOH 1 (replicate 128 0x1A) 128
        (sim_world (sim_env0\<lparr>tx_script := [5]\<rparr>)))
   = (YMODEM_ERR_NONE, [(133, 5)])"
proof -
  define frame where
    "frame = [YMODEM_CODE_SOH, 1, 1 XOR 0xFF] @ take 128 (replicate 128 (0x1A :: byte))
       @ [ucast (drop_bit 8 (ymodem_calc_crc16 (take 128 (replicate 128 0x1A)))),
          ucast (ymodem_calc_crc16 (take 128 (replicate 128 0x1A)))]"
  have lf: "length frame = 133"
    by (simp add: frame_def)
  have s: "sim_comm_send frame (sim_env0\<lparr>tx_script := [5]\<rparr>)
             = (5, sim_env0\<lparr>tx_script := []\<rparr>)"
    by (simp add: sim_comm_send_def sim_env0_def lf)
  have "ymodem_send_packet sim_ctx YMODEM_CODE_SOH 1 (replicate 128 0x1A) 128
          (sim_world (sim_env0\<lparr>tx_script := [5]\<rparr>))
        = (if fst (sim_comm_send frame (env (sim_world (sim_env0\<lparr>tx_script := [5]\<rparr>)))) = 0
           then YMODEM_ERR_CODE else YMODEM_ERR_NONE,
           sim_ctx\<lparr>send_buffer := frame @ drop (3 + 128 + 2) (send_buffer sim_ctx)\<rparr>,
           emit (CommSend frame
                   (fst (sim_comm_send frame (env (sim_world (sim_env0\<lparr>tx_script := [5]\<rparr>))))))
             (snd (sim_comm_send frame (env (sim_world (sim_env0\<lparr>tx_script := [5]\<rparr>)))))
             (sim_world (sim_env0\<lparr>tx_script := [5]\<rparr>)))"
    by (rule send_packet_frame)
      (simp_all add: sim_ctx_fields sim_callbacks_fields ymodem_size_defs frame_def code_distinct)
  then show ?thesis
    by (simp add: s emit_def sim_world_def lf)
qed

subsection \<open>The sender's handshake: ACK and C after packet 0\<close>

lemma receive_byte_trace_cases:
  assumes "ymodem_receive_byte ctx t w = (r, w')"
  shows "trace w' = trace w \<or> (\<exists>bs. trace w' = trace w @ [CommReceive 1 t bs])"
  using assms
  by (auto simp add: ymodem_receive_byte_def ymodem_receive_bytes_def emit_def
      split: option.splits prod.splits list.splits)

lemma is_receive_iff: "is_receive t ev \<longleftrightarrow> (\<exists>bs. ev = CommReceive 1 t bs)"
  by (cases ev) auto

lemma receives_only_iff:
  "receives_only n t tr tr' \<longleftrightarrow>
     (\<exists>evs. tr' = tr @ evs \<and> length evs \<le> n \<and> (\<forall>ev\<in>set evs. \<exists>bs. ev = CommReceive 1 t bs))"
proof
  assume r: "receives_only n t tr tr'"
  then have "tr' = tr @ drop (length tr) tr'"
    by (metis append_take_drop_id receives_only_def)
  moreover from r have "length (drop (length tr) tr') \<le> n"
    by (auto simp add: receives_only_def)
  moreover from r have "\<forall>ev\<in>set (drop (length tr) tr'). \<exists>bs. ev = CommReceive 1 t bs"
    by (simp add: receives_only_def list_all_iff is_receive_iff)
  ultimately show "\<exists>evs. tr' = tr @ evs \<and> length evs \<le> n
                    \<and> (\<forall>ev\<in>set evs. \<exists>bs. ev = CommReceive 1 t bs)"
    by blast
next
  assume "\<exists>evs. tr' = tr @ evs \<and> length evs \<le> n \<and> (\<forall>ev\<in>set evs. \<exists>bs. ev = CommReceive 1 t bs)"
  then show "receives_only n t tr tr'"
    by (auto simp add: receives_only_def list_all_iff is_receive_iff)
qed

lemma receives_only_refl: "receives_only n t tr tr"
  by (simp add: receives_only_iff)

lemma receives_only_step:
  assumes "tr1 = tr \<or> (\<exists>bs. tr1 = tr @ [CommReceive 1 t bs])" "receives_only n t tr1 tr2"
  shows "receives_only (Suc n) t tr tr2"
proof -
  from assms(2) obtain evs where e: "tr2 = tr1 @ evs" "length evs \<le> n"
    "\<forall>ev\<in>set evs. \<exists>bs. ev = CommReceive 1 t bs"
    by (auto simp add: receives_only_iff)
  from assms(1) show ?thesis
  proof
    assume "tr1 = tr"
    with e show ?thesis
      by (auto simp add: receives_only_iff intro!: exI [of _ evs])
  next
    assume "\<exists>bs. tr1 = tr @ [CommReceive 1 t bs]"
    then obtain bs where "tr1 = tr @ [CommReceive 1 t bs]" ..
    with e show ?thesis
      by (auto simp add: receives_only_iff intro!: exI [of _ "CommReceive 1 t bs # evs"])
  qed
qed

lemma wait_ack_c_char:
  "send_handshake_wait_ack_c n got_ack False ctx w = (a, c, w') \<Longrightarrow>
     ((a \<and> c) \<longleftrightarrow> Inr YMODEM_CODE_C \<in> set (receive_replies n ctx YMODEM_WAIT_PACKET_TIMEOUT_MS w))
     \<and> receives_only n YMODEM_WAIT_PACKET_TIMEOUT_MS (trace w) (trace w')"
proof (induction n arbitrary: got_ack w)
  case 0
  then show ?case
    by (auto simp add: receives_only_refl)
next
  case (Suc n)
  obtain r w1 where rb: "ymodem_receive_byte ctx YMODEM_WAIT_PACKET_TIMEOUT_MS w = (r, w1)"
    by (cases "ymodem_receive_byte ctx YMODEM_WAIT_PACKET_TIMEOUT_MS w")
  note tr = receive_byte_trace_cases [OF rb]
  consider (c) "r = Inr YMODEM_CODE_C" | (ack) "r = Inr YMODEM_CODE_ACK"
    | (other) "r \<noteq> Inr YMODEM_CODE_C" "r \<noteq> Inr YMODEM_CODE_ACK"
    by blast
  then show ?case
  proof cases
    case c
    with Suc.prems rb have "a" "c" "w' = w1"
      by (auto simp add: code_distinct split: if_splits)
    then show ?thesis
      using c rb receives_only_step [OF tr receives_only_refl]
      by simp
  next
    case ack
    with Suc.prems rb have rec: "send_handshake_wait_ack_c n True False ctx w1 = (a, c, w')"
      by (simp add: code_distinct)
    show ?thesis
      using Suc.IH [OF rec] ack rb receives_only_step [OF tr]
      by (simp add: code_distinct)
  next
    case other
    with Suc.prems rb have rec: "send_handshake_wait_ack_c n got_ack False ctx w1 = (a, c, w')"
      by (auto split: if_splits)
    show ?thesis
      using Suc.IH [OF rec] other rb receives_only_step [OF tr]
      by simp
  qed
qed

text \<open>
  C3. After packet 0 the sender makes at most five receives, each of one byte with the
  packet timeout of 3000 ms, and nothing else. It succeeds, with the stage
  \<open>YMODEM_STAGE_ESTABLISHED\<close> and the sequence number 1, exactly when one of the (up to)
  five replies is \<^verbatim>\<open>C\<close>, whether an ACK came before it or not: a \<^verbatim>\<open>C\<close> without an ACK
  counts for both. Otherwise it fails with \<open>YMODEM_ERR_ACK\<close>.
\<close>

theorem C3_handshake_ack_c:
  fixes ctx :: "'e ymodem_context"
  shows "\<exists>w'. send_handshake_reply ctx w =
           (if Inr YMODEM_CODE_C \<in> set (receive_replies 5 ctx YMODEM_WAIT_PACKET_TIMEOUT_MS w)
            then (YMODEM_ERR_NONE, ctx\<lparr>stage := YMODEM_STAGE_ESTABLISHED, packet_seq := 1\<rparr>, w')
            else (YMODEM_ERR_ACK, ctx, w'))
         \<and> receives_only 5 3000 (trace w) (trace w')"
proof -
  obtain a c w' where l: "send_handshake_wait_ack_c 5 False False ctx w = (a, c, w')"
    by (cases "send_handshake_wait_ack_c 5 False False ctx w")
  from wait_ack_c_char [OF l] show ?thesis
    by (auto simp add: send_handshake_reply_def l YMODEM_WAIT_PACKET_TIMEOUT_MS_def
        intro!: exI [of _ w'])
qed

text \<open>
  The receiver's \<^verbatim>\<open>C\<close> arrives and its ACK does not: the handshake succeeds after one
  receive.
\<close>

theorem C3_handshake_ack_c_witness:
  "(\<lambda>(e, c, w'). (e, stage c, packet_seq c, trace w'))
     (send_handshake_reply sim_ctx (sim_world (sim_env0\<lparr>rx_script := [[YMODEM_CODE_C]]\<rparr>)))
   = (YMODEM_ERR_NONE, YMODEM_STAGE_ESTABLISHED, 1, [CommReceive 1 3000 [YMODEM_CODE_C]])"
proof -
  let ?w = "sim_world (sim_env0\<lparr>rx_script := [[YMODEM_CODE_C]]\<rparr>)"
  have r: "Inr YMODEM_CODE_C \<in> set (receive_replies 5 sim_ctx YMODEM_WAIT_PACKET_TIMEOUT_MS ?w)"
    by (simp add: eval_nat_numeral sim_receive_byte_eval sim_ctx_fields sim_world_def sim_env0_def
        code_distinct)
  have t: "trace (snd (snd (send_handshake_reply sim_ctx ?w))) = [CommReceive 1 3000 [YMODEM_CODE_C]]"
    by (simp add: send_handshake_reply_def eval_nat_numeral sim_receive_byte_eval sim_ctx_fields
        sim_world_def sim_env0_def YMODEM_WAIT_PACKET_TIMEOUT_MS_def code_distinct)
  from C3_handshake_ack_c [of sim_ctx ?w] r t show ?thesis
    by auto
qed

subsection \<open>The file-info parser\<close>





subsection \<open>The file handle at the end of a call\<close>

lemma receive_packet_ctx:
  "ymodem_receive_packet ctx w = (r, s, n, ctx', w') \<Longrightarrow> ctx' = ctx\<lparr>buffer := buffer ctx'\<rparr>"
  by (auto simp add: ymodem_receive_packet_def Let_def split: if_splits prod.splits)

lemma recv_handshake_wait_ctx:
  "recv_handshake_wait n i ctx w = (r, ctx', w') \<Longrightarrow> ctx' = ctx\<lparr>buffer := buffer ctx'\<rparr>"
proof (induction n arbitrary: i w)
  case 0
  then show ?case by simp
next
  case (Suc n)
  then show ?case
    by (auto split: prod.splits if_splits sum.splits)
qed

lemma do_handshake_file_handle:
  assumes "ymodem_do_handshake ctx timeout_s w = (r, ctx', w')"
  shows "file_handle ctx' = file_handle ctx"
proof -
  obtain x ctx1 w1 where
    hw: "recv_handshake_wait (nat timeout_s) 0 (ctx\<lparr>stage := YMODEM_STAGE_ESTABLISHING\<rparr>) w
           = (x, ctx1, w1)"
    by (cases "recv_handshake_wait (nat timeout_s) 0 (ctx\<lparr>stage := YMODEM_STAGE_ESTABLISHING\<rparr>) w")
  have h1: "file_handle ctx1 = file_handle ctx"
    by (subst recv_handshake_wait_ctx [OF hw]) simp
  obtain r2 s n ctx2 w2 where rp: "ymodem_receive_packet ctx1 w1 = (r2, s, n, ctx2, w2)"
    by (cases "ymodem_receive_packet ctx1 w1")
  have h2: "file_handle ctx2 = file_handle ctx1"
    by (subst receive_packet_ctx [OF rp]) simp
  from assms show ?thesis
    using h1 h2
    by (auto simp add: ymodem_do_handshake_def Let_def hw rp split: sum.splits if_splits prod.splits)
qed

lemma parse_file_info_file_handle:
  "ymodem_parse_file_info ctx fi = (r, ctx', fi') \<Longrightarrow> file_handle ctx' = file_handle ctx"
  by (auto simp add: ymodem_parse_file_info_def Let_def split: if_splits)

lemma send_file_file_handle:
  fixes ctx :: "'e ymodem_context"
  assumes "file_handle ctx = None"
    and "ymodem_send_file ctx fname_ptr timeout_s w = Some (e, ctx', w')"
  shows "file_handle ctx' = None"
  using assms
  by (auto simp add: ymodem_send_file_def Let_def
      split: option.splits prod.splits if_splits)

lemma receive_file_file_handle:
  fixes ctx :: "'e ymodem_context"
  assumes "file_handle ctx = None"
    and "ymodem_receive_file ctx file_info_ptr timeout_s w = Some (e, ctx', fi', w')"
  shows "file_handle ctx' = None"
proof (cases file_info_ptr)
  case None
  with assms show ?thesis
    by (simp add: ymodem_receive_file_def)
next
  case (Some file_info)
  obtain r1 ctx1 w1 where hs: "ymodem_do_handshake ctx timeout_s w = (r1, ctx1, w1)"
    by (cases "ymodem_do_handshake ctx timeout_s w")
  obtain r2 ctx2 fi2 where pf: "ymodem_parse_file_info ctx1 file_info = (r2, ctx2, fi2)"
    by (cases "ymodem_parse_file_info ctx1 file_info")
  have h: "file_handle ctx1 = None" "file_handle ctx2 = None"
    using do_handshake_file_handle [OF hs] parse_file_info_file_handle [OF pf] assms(1)
    by simp_all
  from assms(2) show ?thesis
    using h
    by (auto simp add: ymodem_receive_file_def Some hs pf Let_def
        split: option.splits prod.splits if_splits)
qed

text \<open>
  C9. On a context whose file handle is null (as both init functions leave it, and as
  every call below leaves it again), a call of \<^verbatim>\<open>ymodem_send_file\<close> or of
  \<^verbatim>\<open>ymodem_receive_file\<close> that returns, with whatever result, returns a context whose
  file handle is null.
\<close>

theorem C9_file_handle_null_on_return:
  fixes ctx :: "'e ymodem_context"
  assumes "file_handle ctx = None"
  shows "(ymodem_send_file ctx fname_ptr timeout_s w = Some (e, ctx', w')
            \<longrightarrow> file_handle ctx' = None)
       \<and> (ymodem_receive_file ctx file_info_ptr timeout_s w = Some (e, ctx', fi', w')
            \<longrightarrow> file_handle ctx' = None)"
  using send_file_file_handle [OF assms] receive_file_file_handle [OF assms]
  by blast

lemma send_init_file_handle:
  "ymodem_send_init ctx cbs buf n sbuf m = (YMODEM_ERR_NONE, ctx') \<Longrightarrow> file_handle ctx' = None"
  by (auto simp add: ymodem_send_init_def split: option.splits if_splits)

lemma receive_init_file_handle:
  "ymodem_receive_init ctx cbs buf n = (YMODEM_ERR_NONE, ctx') \<Longrightarrow> file_handle ctx' = None"
  by (auto simp add: ymodem_receive_init_def split: option.splits if_splits)

text \<open>
  Two calls that return on an error path, with a handshake timeout of zero seconds. The
  sender has opened the file by then: it closes it and the handle is null. The receiver
  has not opened a file yet.
\<close>

theorem C9_file_handle_null_on_return_witness:
  "map_option (\<lambda>(e, c, w'). (e, file_handle c, trace w'))
     (ymodem_send_file sim_ctx (Some [0x61, 0x2E, 0x62, 0x69, 0x6E]) 0 (sim_world sim_env0))
     = Some (YMODEM_ERR_TMO, None,
             [FileOpen [0x61, 0x2E, 0x62, 0x69, 0x6E] False (Some 1), FileSize (Some 1) 0,
              FileClose (Some 1)])
   \<and> map_option (\<lambda>(e, c, fi, w'). (e, file_handle c, trace w'))
     (ymodem_receive_file sim_ctx (Some \<lparr>fi_filename = replicate 256 0, fi_filesize = 0\<rparr>) 0
        (sim_world sim_env0))
     = Some (YMODEM_ERR_TMO, None, [])"
proof -
  let ?name = "[0x61, 0x2E, 0x62, 0x69, 0x6E] :: byte list"
  let ?fi = "\<lparr>fi_filename = replicate 256 0, fi_filesize = 0\<rparr>"
  have h: "file_handle sim_ctx = None"
    by (simp add: sim_ctx_fields)
  have s: "\<exists>c. ymodem_send_file sim_ctx (Some ?name) 0 (sim_world sim_env0)
             = Some (YMODEM_ERR_TMO, c,
                     \<lparr>env = sim_env0,
                      trace = [FileOpen ?name False (Some 1), FileSize (Some 1) 0,
                               FileClose (Some 1)]\<rparr>)"
    by (simp add: ymodem_send_file_def ymodem_do_send_handshake_def Let_def
        call_file_open_def call_file_size_def call_file_close_def emit_def
        sim_ctx_fields sim_callbacks_fields sim_world_def sim_env0_def
        sim_file_open_def sim_file_size_def sim_file_close_def)
  have r: "\<exists>c fi. ymodem_receive_file sim_ctx (Some ?fi) 0 (sim_world sim_env0)
             = Some (YMODEM_ERR_TMO, c, fi, \<lparr>env = sim_env0, trace = []\<rparr>)"
    by (simp add: ymodem_receive_file_def ymodem_do_handshake_def Let_def sim_world_def)
  from s obtain c where
    s': "ymodem_send_file sim_ctx (Some ?name) 0 (sim_world sim_env0)
           = Some (YMODEM_ERR_TMO, c,
                   \<lparr>env = sim_env0,
                    trace = [FileOpen ?name False (Some 1), FileSize (Some 1) 0,
                             FileClose (Some 1)]\<rparr>)" ..
  from r obtain c2 fi where
    r': "ymodem_receive_file sim_ctx (Some ?fi) 0 (sim_world sim_env0)
           = Some (YMODEM_ERR_TMO, c2, fi, \<lparr>env = sim_env0, trace = []\<rparr>)"
    by blast
  from C9_file_handle_null_on_return [OF h, THEN conjunct1, rule_format, OF s']
  have 1: "file_handle c = None" .
  from C9_file_handle_null_on_return [OF h, THEN conjunct2, rule_format, OF r']
  have 2: "file_handle c2 = None" .
  show ?thesis
    by (simp add: s' r' 1 2)
qed

subsection \<open>The receiver's data loop: the run and its passes\<close>

lemma do_trans_loop_after:
  "do_trans_after n ctx es tot w = Inl r \<Longrightarrow> do_trans_loop ctx es tot w = Some r"
proof (induction n arbitrary: ctx es tot w)
  case 0
  then show ?case by simp
next
  case (Suc n)
  then show ?case
    by (subst do_trans_loop.simps) (auto split: sum.splits)
qed


subsection \<open>The receiver's data loop: invalid packets\<close>

lemma unat_succ_byte: "unat (x::byte) \<le> 5 \<Longrightarrow> unat (x + 1) = unat x + 1"
  by (simp add: unat_word_ariths)

lemma trans_count_error_eq:
  fixes ctx :: "'e ymodem_context"
  assumes "unat (error_count ctx) \<le> YMODEM_MAX_ERRORS"
  shows "trans_count_error ctx err es tot w =
     (if unat (error_count ctx) < YMODEM_MAX_ERRORS
      then (case ymodem_send_byte (ctx\<lparr>error_count := error_count ctx + 1\<rparr>) YMODEM_CODE_NAK w of
              (ok, w1) \<Rightarrow>
                if ok then Inr (ctx\<lparr>error_count := error_count ctx + 1\<rparr>, es, tot, w1)
                else Inl (YMODEM_ERR_CODE, ctx\<lparr>error_count := error_count ctx + 1\<rparr>, w1))
      else Inl (err, ctx\<lparr>error_count := error_count ctx + 1\<rparr>, w))"
  using assms unat_succ_byte [of "error_count ctx"]
  by (auto simp add: trans_count_error_def Let_def YMODEM_MAX_ERRORS_def split: prod.splits)

lemma do_trans_step_invalid:
  fixes ctx :: "'e ymodem_context"
  assumes rb: "ymodem_receive_byte ctx YMODEM_WAIT_PACKET_TIMEOUT_MS w = (Inr code, w1)"
    and ne: "code \<noteq> YMODEM_CODE_EOT"
    and ctx1: "ctx1 = ctx\<lparr>buffer := write_at (buffer ctx) 0 [code]\<rparr>"
    and bad: "(code \<noteq> YMODEM_CODE_SOH \<and> code \<noteq> YMODEM_CODE_STX
                \<and> err = YMODEM_ERR_CODE \<and> ctx2 = ctx1 \<and> w2 = w1)
              \<or> ((code = YMODEM_CODE_SOH \<or> code = YMODEM_CODE_STX)
                \<and> ymodem_receive_packet ctx1 w1 = (err, seq, n, ctx2, w2)
                \<and> err \<noteq> YMODEM_ERR_NONE)"
    and cnt: "unat (error_count ctx) \<le> YMODEM_MAX_ERRORS"
    and ctx3: "ctx3 = ctx2\<lparr>error_count := error_count ctx + 1\<rparr>"
  shows "do_trans_step ctx es tot w =
     (if unat (error_count ctx) < YMODEM_MAX_ERRORS
      then (case ymodem_send_byte ctx3 YMODEM_CODE_NAK w2 of
              (ok, w3) \<Rightarrow> if ok then Inr (ctx3, es, tot, w3) else Inl (YMODEM_ERR_CODE, ctx3, w3))
      else Inl (err, ctx3, w2))"
  using bad
proof
  assume a: "code \<noteq> YMODEM_CODE_SOH \<and> code \<noteq> YMODEM_CODE_STX
                \<and> err = YMODEM_ERR_CODE \<and> ctx2 = ctx1 \<and> w2 = w1"
  have c: "unat (error_count ctx1) \<le> YMODEM_MAX_ERRORS"
    using cnt by (simp add: ctx1)
  have s: "do_trans_step ctx es tot w = trans_count_error ctx1 YMODEM_ERR_CODE es tot w1"
    using a ne by (simp add: do_trans_step_def rb Let_def ctx1)
  have e: "error_count ctx1 = error_count ctx"
    by (simp add: ctx1)
  from a have c3: "ctx3 = ctx1\<lparr>error_count := error_count ctx + 1\<rparr>"
    by (simp add: ctx3)
  show ?thesis
    unfolding s trans_count_error_eq [OF c] e c3 [symmetric]
    using a by simp
next
  assume a: "(code = YMODEM_CODE_SOH \<or> code = YMODEM_CODE_STX)
                \<and> ymodem_receive_packet ctx1 w1 = (err, seq, n, ctx2, w2)
                \<and> err \<noteq> YMODEM_ERR_NONE"
  then have rp: "ymodem_receive_packet ctx1 w1 = (err, seq, n, ctx2, w2)"
    by simp
  have e: "error_count ctx2 = error_count ctx"
    by (subst receive_packet_ctx [OF rp]) (simp add: ctx1)
  then have c: "unat (error_count ctx2) \<le> YMODEM_MAX_ERRORS"
    using cnt by simp
  have s: "do_trans_step ctx es tot w = trans_count_error ctx2 err es tot w2"
    using a ne by (auto simp add: do_trans_step_def rb Let_def ctx1 [symmetric])
  show ?thesis
    unfolding s trans_count_error_eq [OF c] e ctx3 [symmetric]
    by simp
qed

text \<open>
  C4, as the code has it. A packet that fails validation (a header byte that is neither
  SOH nor STX, nor EOT; or, after SOH or STX, a body that \<^verbatim>\<open>_ymodem_receive_packet\<close>
  refuses with a timeout, a complement mismatch or a CRC mismatch) adds one to the error
  count. While the count has not passed \<open>YMODEM_MAX_ERRORS = 5\<close>, that is for up to five
  failures in a row, a NAK is sent and the loop goes round again. The failure that takes
  the count past five, the sixth in a row, makes the loop return that packet's error, and
  no NAK is sent for it.
\<close>

theorem C4_invalid_packet_counts_error:
  fixes ctx :: "'e ymodem_context"
  assumes rb: "ymodem_receive_byte ctx YMODEM_WAIT_PACKET_TIMEOUT_MS w = (Inr code, w1)"
    and ne: "code \<noteq> YMODEM_CODE_EOT"
    and ctx1: "ctx1 = ctx\<lparr>buffer := write_at (buffer ctx) 0 [code]\<rparr>"
    and bad: "(code \<noteq> YMODEM_CODE_SOH \<and> code \<noteq> YMODEM_CODE_STX
                \<and> err = YMODEM_ERR_CODE \<and> ctx2 = ctx1 \<and> w2 = w1)
              \<or> ((code = YMODEM_CODE_SOH \<or> code = YMODEM_CODE_STX)
                \<and> ymodem_receive_packet ctx1 w1 = (err, seq, n, ctx2, w2)
                \<and> err \<noteq> YMODEM_ERR_NONE)"
    and cnt: "unat (error_count ctx) \<le> YMODEM_MAX_ERRORS"
    and ctx3: "ctx3 = ctx2\<lparr>error_count := error_count ctx + 1\<rparr>"
  shows "do_trans_step ctx es tot w =
     (if unat (error_count ctx) < 5
      then (case ymodem_send_byte ctx3 YMODEM_CODE_NAK w2 of
              (ok, w3) \<Rightarrow> if ok then Inr (ctx3, es, tot, w3) else Inl (YMODEM_ERR_CODE, ctx3, w3))
      else Inl (err, ctx3, w2))
    \<and> unat (error_count ctx3) = unat (error_count ctx) + 1
    \<and> err \<in> {YMODEM_ERR_CODE, YMODEM_ERR_TMO, YMODEM_ERR_SEQ, YMODEM_ERR_CRC}"
proof -
  have e: "err \<in> {YMODEM_ERR_CODE, YMODEM_ERR_TMO, YMODEM_ERR_SEQ, YMODEM_ERR_CRC}"
    using bad
    by (auto simp add: ymodem_receive_packet_def Let_def split: if_splits prod.splits)
  have u: "unat (error_count ctx3) = unat (error_count ctx) + 1"
    using cnt unat_succ_byte [of "error_count ctx"]
    by (simp add: ctx3 YMODEM_MAX_ERRORS_def)
  show ?thesis
    using do_trans_step_invalid [OF rb ne ctx1 bad cnt ctx3, of es tot] e u
    by (simp add: YMODEM_MAX_ERRORS_def)
qed

theorem C4_invalid_packet_counts_error_witness:
  "map_sum (\<lambda>(e, c, w'). (e, unat (error_count c), sent_frames (trace w'))) (\<lambda>_. ())
     (do_trans_step (sim_ctx\<lparr>error_count := 5\<rparr>) 1 0
        (sim_world (sim_env0\<lparr>rx_script := [[0x55]]\<rparr>)))
   = Inl (YMODEM_ERR_CODE, 6, [])"
proof -
  have rb: "ymodem_receive_byte (sim_ctx\<lparr>error_count := 5\<rparr>) YMODEM_WAIT_PACKET_TIMEOUT_MS
              (sim_world (sim_env0\<lparr>rx_script := [[0x55]]\<rparr>))
            = (Inr 0x55, \<lparr>env = sim_env0\<lparr>rx_script := []\<rparr>,
                          trace = [CommReceive 1 YMODEM_WAIT_PACKET_TIMEOUT_MS [0x55]]\<rparr>)"
    by (simp add: sim_receive_byte_eval sim_ctx_fields sim_world_def sim_env0_def)
  have ne: "(0x55 :: byte) \<noteq> YMODEM_CODE_EOT"
    by (simp add: ymodem_code_defs)
  have bad: "(0x55 :: byte) \<noteq> YMODEM_CODE_SOH \<and> (0x55 :: byte) \<noteq> YMODEM_CODE_STX
               \<and> YMODEM_ERR_CODE = YMODEM_ERR_CODE \<and> c = c \<and> v = v"
    for c :: "sim_env ymodem_context" and v :: "sim_env world"
    by (simp add: ymodem_code_defs)
  have cnt: "unat (error_count (sim_ctx\<lparr>error_count := 5\<rparr>)) \<le> YMODEM_MAX_ERRORS"
    by (simp add: YMODEM_MAX_ERRORS_def)
  show ?thesis
    using C4_invalid_packet_counts_error [OF rb ne refl disjI1 [OF bad] cnt refl, of 1 0]
    by (simp add: sim_ctx_fields)
qed

subsection \<open>The receiver's data loop in the scripted environment\<close>

lemma sim_do_trans_step_junk:
  assumes cb: "callbacks ctx = sim_callbacks"
    and rx: "rx_script (env w) \<noteq> []" "hd (rx_script (env w)) \<noteq> []"
    and tx: "tx_script (env w) = []"
    and b: "hd (hd (rx_script (env w))) \<noteq> YMODEM_CODE_EOT"
      "hd (hd (rx_script (env w))) \<noteq> YMODEM_CODE_SOH"
      "hd (hd (rx_script (env w))) \<noteq> YMODEM_CODE_STX"
    and cnt: "unat (error_count ctx) < YMODEM_MAX_ERRORS"
  shows "do_trans_step ctx es tot w =
           Inr (ctx\<lparr>buffer := write_at (buffer ctx) 0 [hd (hd (rx_script (env w)))],
                    error_count := error_count ctx + 1\<rparr>,
                es, tot,
                \<lparr>env = (env w)\<lparr>rx_script := tl (rx_script (env w))\<rparr>,
                 trace = trace w @ [CommReceive 1 YMODEM_WAIT_PACKET_TIMEOUT_MS
                                      [hd (hd (rx_script (env w)))],
                                    CommSend [YMODEM_CODE_NAK] 1]\<rparr>)"
proof -
  from rx obtain b bs rest where r: "rx_script (env w) = (b # bs) # rest"
    by (cases "rx_script (env w)"; cases "hd (rx_script (env w))") auto
  have rb: "ymodem_receive_byte ctx YMODEM_WAIT_PACKET_TIMEOUT_MS w
              = (Inr b, \<lparr>env = (env w)\<lparr>rx_script := rest\<rparr>,
                         trace = trace w @ [CommReceive 1 YMODEM_WAIT_PACKET_TIMEOUT_MS [b]]\<rparr>)"
    by (simp add: sim_receive_byte_eval [OF cb] r)
  have bad: "b \<noteq> YMODEM_CODE_SOH \<and> b \<noteq> YMODEM_CODE_STX
               \<and> YMODEM_ERR_CODE = YMODEM_ERR_CODE \<and> c = c \<and> v = v"
    for c :: "sim_env ymodem_context" and v :: "sim_env world"
    using b by (simp add: r)
  have ne: "b \<noteq> YMODEM_CODE_EOT"
    using b by (simp add: r)
  from cnt have c: "unat (error_count ctx) \<le> YMODEM_MAX_ERRORS"
    by simp
  show ?thesis
    using do_trans_step_invalid [OF rb ne refl disjI1 [OF bad] c refl, of es tot] cnt
    by (simp add: sim_send_byte_eval cb tx r)
qed

lemma sim_do_trans_step_eot:
  assumes cb: "callbacks ctx = sim_callbacks"
    and rx: "rx_script (env w) \<noteq> []" "hd (rx_script (env w)) \<noteq> []"
    and b: "hd (hd (rx_script (env w))) = YMODEM_CODE_EOT"
  shows "do_trans_step ctx es tot w =
           Inl (YMODEM_ERR_NONE, ctx\<lparr>buffer := write_at (buffer ctx) 0 [YMODEM_CODE_EOT]\<rparr>,
                \<lparr>env = (env w)\<lparr>rx_script := tl (rx_script (env w))\<rparr>,
                 trace = trace w @ [CommReceive 1 YMODEM_WAIT_PACKET_TIMEOUT_MS
                                      [YMODEM_CODE_EOT]]\<rparr>)"
proof -
  from rx obtain b bs rest where r: "rx_script (env w) = (b # bs) # rest"
    by (cases "rx_script (env w)"; cases "hd (rx_script (env w))") auto
  with b show ?thesis
    by (simp add: do_trans_step_def sim_receive_byte_eval [OF cb])
qed

lemma do_trans_after_numeral:
  "do_trans_after (numeral k) ctx es tot w =
     (case do_trans_step ctx es tot w of
        Inl r \<Rightarrow> Inl r
      | Inr (ctx', es', tot', w') \<Rightarrow> do_trans_after (pred_numeral k) ctx' es' tot' w')"
  by (simp add: numeral_eq_Suc)

text \<open>
  Against C4 as the claim has it (the loop fails as soon as the count reaches five): five
  bytes in a row that are no packet header, then EOT. Each of the five is answered with a
  NAK, the count stands at five, and the loop returns \<open>YMODEM_ERR_NONE\<close>.
\<close>

theorem C4_counterexample:
  "map_option (\<lambda>(e, c, w'). (e, error_count c, sent_frames (trace w')))
     (ymodem_do_trans sim_ctx
        (sim_world (sim_env0\<lparr>rx_script := [[0x55], [0x55], [0x55], [0x55], [0x55],
                                            [YMODEM_CODE_EOT]]\<rparr>)))
   = Some (YMODEM_ERR_NONE, 5,
           [[YMODEM_CODE_NAK], [YMODEM_CODE_NAK], [YMODEM_CODE_NAK], [YMODEM_CODE_NAK],
            [YMODEM_CODE_NAK]])"
proof -
  have j: "(0x55 :: byte) \<noteq> YMODEM_CODE_EOT" "(0x55 :: byte) \<noteq> YMODEM_CODE_SOH"
    "(0x55 :: byte) \<noteq> YMODEM_CODE_STX"
    by (simp_all add: ymodem_code_defs)
  have "\<exists>c v. do_trans_after 6 (sim_ctx\<lparr>stage := YMODEM_STAGE_TRANSMITTING, error_count := 0\<rparr>) 1 0
          (sim_world (sim_env0\<lparr>rx_script := [[0x55], [0x55], [0x55], [0x55], [0x55],
                                              [YMODEM_CODE_EOT]]\<rparr>))
        = Inl (YMODEM_ERR_NONE, c, v) \<and> error_count c = 5
          \<and> sent_frames (trace v) = [[YMODEM_CODE_NAK], [YMODEM_CODE_NAK], [YMODEM_CODE_NAK],
                                        [YMODEM_CODE_NAK], [YMODEM_CODE_NAK]]"
    by (simp add: do_trans_after_numeral sim_do_trans_step_junk sim_do_trans_step_eot j
        sim_ctx_fields sim_world_def sim_env0_def YMODEM_MAX_ERRORS_def)
  then obtain c v where
    "do_trans_after 6 (sim_ctx\<lparr>stage := YMODEM_STAGE_TRANSMITTING, error_count := 0\<rparr>) 1 0
          (sim_world (sim_env0\<lparr>rx_script := [[0x55], [0x55], [0x55], [0x55], [0x55],
                                              [YMODEM_CODE_EOT]]\<rparr>))
        = Inl (YMODEM_ERR_NONE, c, v)"
    and r: "error_count c = 5"
      "sent_frames (trace v) = [[YMODEM_CODE_NAK], [YMODEM_CODE_NAK], [YMODEM_CODE_NAK],
                                 [YMODEM_CODE_NAK], [YMODEM_CODE_NAK]]"
    by blast
  from do_trans_loop_after [OF this(1)] r show ?thesis
    by (simp add: ymodem_do_trans_def)
qed

subsection \<open>The receiver's data loop: what is written\<close>
















subsection \<open>The size that packet 0 announces\<close>










subsection \<open>A run of the data loop: one packet of 128 bytes\<close>










end
